theory Spec2Isabelle
  imports Complex_Main "HOL-Library.Stream"
begin

section \<open>Domain-randomised episode configuration of \<open>BaseEnv\<close>\<close>

text \<open>
  The development embeds \<^verbatim>\<open>src/ungraspable/robosuite_env/base_env.py\<close>: the attribute
  set-up of \<^verbatim>\<open>BaseEnv.__init__\<close>, \<^verbatim>\<open>init_box_size\<close>, the body of \<^verbatim>\<open>_load_model\<close> and
  \<^verbatim>\<open>_load_robots\<close>.

  Conventions of the embedding.
  \<^item> Python floats are HOL reals: arithmetic is exact, rounding of IEEE doubles is not
    modelled.
  \<^item> The global generator \<^verbatim>\<open>np.random\<close> is an infinite stream of reals; every call of a
    sampling primitive reads the head of the stream and hands back the tail. A stream
    whose elements all lie in \<open>[0, 1)\<close> stands for a sequence of independent standard
    uniform draws.
  \<^item> Every exception of the Python code is a value \<open>Inl e\<close> of the result type.
  \<^item> numpy arrays are lists; an indexed store outside the list raises \<open>IndexError\<close>.
  \<^item> The density bounds are floats holding whole numbers in the source (\<^verbatim>\<open>86.\<close>); they
    are integers here, as the integer sampler reads them.
\<close>

subsection \<open>Errors and the random source\<close>

datatype error = IndexError | ValueError | AttributeError

type_synonym rng = "real stream"

definition unit_draws :: "rng \<Rightarrow> bool" where
  "unit_draws g = (\<forall>n. 0 \<le> g !! n \<and> g !! n < 1)"

definition bind_err :: "error + 'a \<Rightarrow> ('a \<Rightarrow> error + 'b) \<Rightarrow> error + 'b" where
  "bind_err m f = (case m of Inl e \<Rightarrow> Inl e | Inr x \<Rightarrow> f x)"

text \<open>
  \<^verbatim>\<open>np.random.uniform(low, high)\<close>: numpy computes \<open>low + (high - low) * u\<close> for a standard
  uniform draw \<open>u\<close>; it does not compare \<open>low\<close> with \<open>high\<close> and raises nothing.
\<close>

definition uniform :: "real \<Rightarrow> real \<Rightarrow> rng \<Rightarrow> real \<times> rng" where
  "uniform low high g = (low + (high - low) * shd g, stl g)"

text \<open>
  \<^verbatim>\<open>np.random.randint(low, high)\<close>: an integer of the half-open range \<open>[low, high)\<close>; numpy
  raises \<open>ValueError\<close> ("low >= high") on an empty range.
\<close>

definition randint :: "int \<Rightarrow> int \<Rightarrow> rng \<Rightarrow> error + (int \<times> rng)" where
  "randint low high g =
     (if low \<ge> high then Inl ValueError
      else Inr (low + \<lfloor>shd g * of_int (high - low)\<rfloor>, stl g))"

text \<open>
  \<^verbatim>\<open>np.random.choice(xs)\<close> on a list: the element at a uniformly drawn index below
  \<open>len(xs)\<close>.
\<close>

definition choice :: "'a list \<Rightarrow> rng \<Rightarrow> 'a \<times> rng" where
  "choice xs g = (xs ! nat \<lfloor>shd g * of_nat (length xs)\<rfloor>, stl g)"

text \<open>\<^verbatim>\<open>a[i] = v\<close> and \<^verbatim>\<open>a[i]\<close> on an array, for a non-negative index.\<close>

definition set_item :: "real list \<Rightarrow> nat \<Rightarrow> real \<Rightarrow> error + real list" where
  "set_item xs i v = (if i < length xs then Inr (xs[i := v]) else Inl IndexError)"

definition get_item :: "real list \<Rightarrow> nat \<Rightarrow> error + real" where
  "get_item xs i = (if i < length xs then Inr (xs ! i) else Inl IndexError)"

subsection \<open>The objects handed to the simulation backend\<close>

text \<open>A value of the controller configuration dictionary: the code stores floats only.\<close>

datatype cfg_value = CfgFloat real | CfgOther string

type_synonym controller_cfg = "string \<rightharpoonup> cfg_value"

text \<open>\<^verbatim>\<open>CustomMaterial(texture=..., tex_name=..., mat_name=..., ...)\<close>\<close>

record custom_material =
  texture :: string
  tex_name :: string
  mat_name :: string

text \<open>\<^verbatim>\<open>BinArena(bin_pos=..., bin_full_size=..., bin_friction=..., hidden_walls="")\<close>\<close>

record bin_arena =
  bin_pos :: "real list"
  bin_full_size :: "real list"
  bin_friction :: "real list"
  hidden_walls :: string

text \<open>\<^verbatim>\<open>BoxObject(name=..., size_min=..., size_max=..., rgba=..., material=..., density=...)\<close>\<close>

record box_object =
  box_name :: string
  size_min :: "real list"
  size_max :: "real list"
  rgba :: "real list"
  material :: custom_material
  density :: int

text \<open>
  \<^verbatim>\<open>cube.size\<close>: the box takes its size between \<open>size_min\<close> and \<open>size_max\<close>; this
  environment always passes the same list for both, so the size is that list.
\<close>

definition box_size :: "box_object \<Rightarrow> real list" where
  "box_size b = size_min b"

text \<open>\<^verbatim>\<open>UniformRandomSampler(name=..., mujoco_objects=..., x_range=..., ...)\<close>\<close>

record sampler =
  sampler_name :: string
  mujoco_objects :: box_object
  x_range :: "real \<times> real"
  y_range :: "real \<times> real"
  rotation :: real
  ensure_object_boundary_in_range :: bool
  ensure_valid_placement :: bool
  reference_pos :: "real list"
  z_offset :: real

subsection \<open>The environment instance\<close>

text \<open>
  The attributes of \<open>BaseEnv\<close> that the randomisation reads or writes.
  \<open>controller_config\<close> is \<^verbatim>\<open>self.robots[0].controller_config\<close> and \<open>robot_gripper_friction\<close>
  is the friction vector the robot \<^verbatim>\<open>self.robots[0]\<close> was constructed with. An attribute
  that Python has not assigned yet is \<open>None\<close>.
\<close>

record env =
  table_full_size :: "real list"
  table_friction :: "real list"
  table_offset :: "real list"
  placement_initializer :: "sampler option"
  object_initial_pose_y_min :: real
  object_initial_pose_y_max :: real
  object_pos_noise :: real
  object_ori_noise :: real
  table_offset_x_min :: real
  table_offset_x_max :: real
  table_offset_z_min :: real
  table_offset_z_max :: real
  use_random_occlusion :: bool
  occlusion_type :: string
  object_size_x_min :: real
  object_size_x_max :: real
  object_size_x_val :: real
  object_size_y_min :: real
  object_size_y_max :: real
  object_size_y_val :: real
  object_size_z_min :: real
  object_size_z_max :: real
  object_size_z_val :: real
  object_to_wall_dist_min :: real
  object_to_wall_dist_max :: real
  object_density_min :: int
  object_density_max :: int
  object_density_val :: int
  table_friction_min :: real
  table_friction_max :: real
  table_friction_val :: real
  gripper_friction_min :: real
  gripper_friction_max :: real
  gripper_friction_val :: real
  controller_max_translation_max :: real
  controller_max_translation_min :: real
  controller_max_rotation_max :: real
  controller_max_rotation_min :: real
  controller_config :: controller_cfg
  robot_gripper_friction :: "real list"
  mujoco_arena :: "bin_arena option"
  cube :: "box_object option"

subsection \<open>\<^verbatim>\<open>init_box_size\<close>\<close>

definition init_box_size :: "env \<Rightarrow> env" where
  "init_box_size s =
     (if occlusion_type s = ''ground'' then
        s\<lparr>object_size_x_min := 0.15, object_size_x_max := 0.15, object_size_x_val := 0.15,
          object_size_y_min := 0.20, object_size_y_max := 0.20, object_size_y_val := 0.20,
          object_size_z_min := 0.05, object_size_z_max := 0.05, object_size_z_val := 0.05,
          object_to_wall_dist_min := 0, object_to_wall_dist_max := 0\<rparr>
      else
        (let s1 = s\<lparr>object_size_x_min := 0.06, object_size_x_max := 0.06,
                     object_size_x_val := 0.06,
                     object_size_y_min := 0.20, object_size_y_max := 0.20,
                     object_size_y_val := 0.20,
                     object_size_z_min := 0.06, object_size_z_max := 0.06,
                     object_size_z_val := 0.06\<rparr>
         in if occlusion_type s1 = ''side'' then
              s1\<lparr>object_to_wall_dist_min := 0, object_to_wall_dist_max := 0\<rparr>
            else
              s1\<lparr>object_to_wall_dist_min := 0.05, object_to_wall_dist_max := 0.1\<rparr>))"

subsection \<open>\<^verbatim>\<open>__init__\<close>\<close>

text \<open>
  The attribute set-up of the constructor (the call of the parent constructor is outside
  this file). The size and clearance attributes do not exist before \<open>init_box_size\<close>
  assigns them; the record starts them at \<open>0\<close> and \<open>init_box_size\<close> overwrites all of
  them. The constructor takes no range as an argument and compares no minimum with a
  maximum.
\<close>

definition init ::
  "string \<Rightarrow> bool \<Rightarrow> real list \<Rightarrow> real list \<Rightarrow> real list \<Rightarrow> sampler option \<Rightarrow>
   controller_cfg \<Rightarrow> env" where
  "init occlusion use_random full_size friction offset initializer cfg =
     (let s0 = \<lparr>table_full_size = full_size, table_friction = friction, table_offset = offset,
                placement_initializer = initializer,
                object_initial_pose_y_min = 0, object_initial_pose_y_max = 0,
                object_pos_noise = 0, object_ori_noise = 0,
                table_offset_x_min = 0.5, table_offset_x_max = 0.5,
                table_offset_z_min = 0.065, table_offset_z_max = 0.065,
                use_random_occlusion = use_random, occlusion_type = occlusion,
                object_size_x_min = 0, object_size_x_max = 0, object_size_x_val = 0,
                object_size_y_min = 0, object_size_y_max = 0, object_size_y_val = 0,
                object_size_z_min = 0, object_size_z_max = 0, object_size_z_val = 0,
                object_to_wall_dist_min = 0, object_to_wall_dist_max = 0,
                object_density_min = 0, object_density_max = 0, object_density_val = 0,
                table_friction_min = 0, table_friction_max = 0, table_friction_val = 0,
                gripper_friction_min = 0, gripper_friction_max = 0, gripper_friction_val = 0,
                controller_max_translation_max = 0, controller_max_translation_min = 0,
                controller_max_rotation_max = 0, controller_max_rotation_min = 0,
                controller_config = cfg, robot_gripper_friction = [],
                mujoco_arena = None, cube = None\<rparr>;
          s1 = init_box_size s0
      in s1\<lparr>object_density_min := 86, object_density_max := 86, object_density_val := 86,
            table_friction_min := 0.3, table_friction_max := 0.3, table_friction_val := 0.3,
            gripper_friction_min := 3, gripper_friction_max := 3, gripper_friction_val := 3,
            controller_max_translation_max := 0.03, controller_max_translation_min := 0.03,
            controller_max_rotation_max := 0.2, controller_max_rotation_min := 0.2\<rparr>)"

text \<open>The constructor's default arguments.\<close>

definition default_env :: "controller_cfg \<Rightarrow> env" where
  "default_env cfg =
     init ''ground'' False [0.45, 0.54, 0.107] [0.3, 0.005, 0.0001] [0.5, 0, 0.065] None cfg"

subsection \<open>\<^verbatim>\<open>_load_model\<close>\<close>

text \<open>Lines 295--296: the occlusion mode of the episode.\<close>

definition resolve_occlusion :: "env \<Rightarrow> rng \<Rightarrow> env \<times> rng" where
  "resolve_occlusion s g =
     (if use_random_occlusion s then
        (let (m, g') = choice [''ground'', ''side'', ''none''] g
         in (s\<lparr>occlusion_type := m\<rparr>, g'))
      else (s, g))"

text \<open>Lines 302--307: the controller limits, each one only under its membership test.\<close>

definition sample_max_translation :: "env \<Rightarrow> rng \<Rightarrow> env \<times> rng" where
  "sample_max_translation s g =
     (if controller_config s ''max_translation'' \<noteq> None then
        (let (v, g') = uniform (controller_max_translation_min s)
                               (controller_max_translation_max s) g
         in (s\<lparr>controller_config := (controller_config s)(''max_translation'' \<mapsto> CfgFloat v)\<rparr>,
             g'))
      else (s, g))"

definition sample_max_rotation :: "env \<Rightarrow> rng \<Rightarrow> env \<times> rng" where
  "sample_max_rotation s g =
     (if controller_config s ''max_rotation'' \<noteq> None then
        (let (v, g') = uniform (controller_max_rotation_min s)
                               (controller_max_rotation_max s) g
         in (s\<lparr>controller_config := (controller_config s)(''max_rotation'' \<mapsto> CfgFloat v)\<rparr>,
             g'))
      else (s, g))"

definition sample_controller_limits :: "env \<Rightarrow> rng \<Rightarrow> env \<times> rng" where
  "sample_controller_limits s g =
     (let (s1, g1) = sample_max_translation s g in sample_max_rotation s1 g1)"

text \<open>Lines 310--319: table friction, table offset and the arena built from them.\<close>

definition sample_table :: "env \<Rightarrow> rng \<Rightarrow> error + (env \<times> rng)" where
  "sample_table s g =
     (let (f, g1) = uniform (table_friction_min s) (table_friction_max s) g;
          s1 = s\<lparr>table_friction_val := f\<rparr>
      in bind_err (set_item (table_friction s1) 0 (table_friction_val s1)) (\<lambda>tf.
           let s2 = s1\<lparr>table_friction := tf\<rparr>;
               (ox, g2) = uniform (table_offset_x_min s2) (table_offset_x_max s2) g1
           in bind_err (set_item (table_offset s2) 0 ox) (\<lambda>off0.
                let s3 = s2\<lparr>table_offset := off0\<rparr>;
                    (oz, g3) = uniform (table_offset_z_min s3) (table_offset_z_max s3) g2
                in bind_err (set_item (table_offset s3) 2 oz) (\<lambda>off2.
                     let s4 = s3\<lparr>table_offset := off2\<rparr>
                     in Inr (s4\<lparr>mujoco_arena :=
                                 Some \<lparr>bin_pos = table_offset s4,
                                       bin_full_size = table_full_size s4,
                                       bin_friction = table_friction s4,
                                       hidden_walls = ''''\<rparr>\<rparr>, g3)))))"

text \<open>Lines 331--346: the material follows the occlusion mode.\<close>

definition obj_texture :: "env \<Rightarrow> custom_material" where
  "obj_texture s =
     (if occlusion_type s = ''ground'' then
        \<lparr>texture = ''WoodRed'', tex_name = ''redwood'', mat_name = ''redwood_mat''\<rparr>
      else
        \<lparr>texture = ''WoodBlue'', tex_name = ''bluewood'', mat_name = ''bluewood_mat''\<rparr>)"

text \<open>Lines 348--362: object size, density and the box built from them.\<close>

definition sample_object :: "env \<Rightarrow> rng \<Rightarrow> error + (env \<times> rng)" where
  "sample_object s g =
     (let (x, g1) = uniform (object_size_x_min s) (object_size_x_max s) g;
          s1 = s\<lparr>object_size_x_val := x\<rparr>;
          (y, g2) = uniform (object_size_y_min s1) (object_size_y_max s1) g1;
          s2 = s1\<lparr>object_size_y_val := y\<rparr>;
          (z, g3) = uniform (object_size_z_min s2) (object_size_z_max s2) g2;
          s3 = s2\<lparr>object_size_z_val := z\<rparr>
      in bind_err (randint (object_density_min s3) (object_density_max s3 + 1) g3) (\<lambda>(d, g4).
           let s4 = s3\<lparr>object_density_val := d\<rparr>;
               half = [object_size_x_val s4 / 2, object_size_y_val s4 / 2,
                       object_size_z_val s4 / 2]
           in Inr (s4\<lparr>cube := Some \<lparr>box_name = ''cube'', size_min = half, size_max = half,
                                     rgba = [1, 0, 0, 1], material = obj_texture s4,
                                     density = object_density_val s4\<rparr>\<rparr>, g4)))"

text \<open>
  Lines 365--376: the placement sampler. \<^verbatim>\<open>self.cube.size\<close> on an instance without a
  cube raises \<open>AttributeError\<close>.
\<close>

definition build_placement :: "env \<Rightarrow> error + env" where
  "build_placement s =
     (case cube s of
        None \<Rightarrow> Inl AttributeError
      | Some c \<Rightarrow>
          bind_err (get_item (table_full_size s) 0) (\<lambda>tx.
            bind_err (get_item (box_size c) 0) (\<lambda>cx.
              let xpos_max = tx / 2 - cx
              in Inr (s\<lparr>placement_initializer :=
                          Some \<lparr>sampler_name = ''ObjectSampler'',
                                mujoco_objects = c,
                                x_range = (xpos_max - object_to_wall_dist_max s,
                                           xpos_max - object_to_wall_dist_min s),
                                y_range = (object_initial_pose_y_min s,
                                           object_initial_pose_y_max s),
                                rotation = 0,
                                ensure_object_boundary_in_range = False,
                                ensure_valid_placement = False,
                                reference_pos = table_offset s,
                                z_offset = 0\<rparr>\<rparr>))))"

text \<open>
  The whole of \<^verbatim>\<open>_load_model\<close> after the parent's part, in the order of the source.
\<close>

definition load_model :: "env \<Rightarrow> rng \<Rightarrow> error + (env \<times> rng)" where
  "load_model s g =
     (let (s1, g1) = resolve_occlusion s g;
          s2 = init_box_size s1;
          (s3, g3) = sample_controller_limits s2 g1
      in bind_err (sample_table s3 g3) (\<lambda>(s4, g4).
           bind_err (sample_object s4 g4) (\<lambda>(s5, g5).
             bind_err (build_placement s5) (\<lambda>s6. Inr (s6, g5)))))"

subsection \<open>\<^verbatim>\<open>_load_robots\<close>\<close>

definition load_robots :: "env \<Rightarrow> rng \<Rightarrow> error + (env \<times> rng)" where
  "load_robots s g =
     (let gripper_friction = [3, 0.015, 0.0003];
          (v, g1) = uniform (gripper_friction_min s) (gripper_friction_max s) g;
          s1 = s\<lparr>gripper_friction_val := v\<rparr>
      in bind_err (set_item gripper_friction 0 (gripper_friction_val s1)) (\<lambda>gf.
           Inr (s1\<lparr>robot_gripper_friction := gf\<rparr>, g1)))"

subsection \<open>Names for the proofs\<close>

text \<open>
  The first three steps of \<^verbatim>\<open>_load_model\<close> (lines 295--307): mode resolution, the size
  profile and the controller limits. \<open>load_model\<close> continues from this state.
\<close>

definition load_prefix :: "env \<Rightarrow> rng \<Rightarrow> env \<times> rng" where
  "load_prefix s g =
     (let (s1, g1) = resolve_occlusion s g; s2 = init_box_size s1
      in sample_controller_limits s2 g1)"

text \<open>The occlusion mode in force once lines 295--296 have run.\<close>

definition resolved_mode :: "env \<Rightarrow> rng \<Rightarrow> string" where
  "resolved_mode s g = occlusion_type (fst (resolve_occlusion s g))"

text \<open>
  What lines 310--376 make of the state \<open>s3\<close> they start from when no store or draw of
  theirs raises: seven draws, in the order of the source.
\<close>

definition loaded :: "env \<Rightarrow> rng \<Rightarrow> env" where
  "loaded s3 g3 =
     (let f = table_friction_min s3 + (table_friction_max s3 - table_friction_min s3) * shd g3;
          ox = table_offset_x_min s3 +
               (table_offset_x_max s3 - table_offset_x_min s3) * shd (stl g3);
          oz = table_offset_z_min s3 +
               (table_offset_z_max s3 - table_offset_z_min s3) * shd (stl (stl g3));
          fr = (table_friction s3)[0 := f];
          off = (table_offset s3)[0 := ox, 2 := oz];
          g4 = stl (stl (stl g3));
          x = object_size_x_min s3 + (object_size_x_max s3 - object_size_x_min s3) * shd g4;
          y = object_size_y_min s3 +
              (object_size_y_max s3 - object_size_y_min s3) * shd (stl g4);
          z = object_size_z_min s3 +
              (object_size_z_max s3 - object_size_z_min s3) * shd (stl (stl g4));
          d = object_density_min s3 +
              \<lfloor>shd (stl (stl (stl g4))) *
               of_int (object_density_max s3 + 1 - object_density_min s3)\<rfloor>;
          half = [x / 2, y / 2, z / 2];
          c = \<lparr>box_name = ''cube'', size_min = half, size_max = half,
                rgba = [1, 0, 0, 1], material = obj_texture s3, density = d\<rparr>;
          xpos_max = table_full_size s3 ! 0 / 2 - x / 2
      in s3\<lparr>table_friction_val := f, table_friction := fr, table_offset := off,
            mujoco_arena := Some \<lparr>bin_pos = off, bin_full_size = table_full_size s3,
                                   bin_friction = fr, hidden_walls = ''''\<rparr>,
            object_size_x_val := x, object_size_y_val := y, object_size_z_val := z,
            object_density_val := d, cube := Some c,
            placement_initializer :=
              Some \<lparr>sampler_name = ''ObjectSampler'', mujoco_objects = c,
                    x_range = (xpos_max - object_to_wall_dist_max s3,
                               xpos_max - object_to_wall_dist_min s3),
                    y_range = (object_initial_pose_y_min s3, object_initial_pose_y_max s3),
                    rotation = 0, ensure_object_boundary_in_range = False,
                    ensure_valid_placement = False, reference_pos = off,
                    z_offset = 0\<rparr>\<rparr>)"

subsection \<open>Example instances\<close>

text \<open>
  An instance without occlusion (mode \<open>none\<close>) whose configurable ranges have been
  widened after construction, as the adaptive randomisation does, and whose controller
  declares \<open>max_translation\<close> but not \<open>max_rotation\<close>.
\<close>

definition wide_env :: env where
  "wide_env =
     (init ''none'' False [0.45, 0.54, 0.107] [0.3, 0.005, 0.0001] [0.5, 0, 0.065] None
        [''type'' \<mapsto> CfgOther ''OSC_POSE'', ''max_translation'' \<mapsto> CfgFloat 0.05])
       \<lparr>table_offset_x_min := 0.4, table_offset_x_max := 0.6,
        table_offset_z_min := 0.06, table_offset_z_max := 0.07,
        object_density_min := 80, object_density_max := 90,
        table_friction_min := 0.2, table_friction_max := 0.4,
        gripper_friction_min := 2, gripper_friction_max := 4,
        controller_max_translation_max := 0.04, controller_max_translation_min := 0.02,
        controller_max_rotation_max := 0.3, controller_max_rotation_min := 0.1\<rparr>"

text \<open>The box and the state that loading \<open>wide_env\<close> yields when every draw is \<open>1/2\<close>.\<close>

definition wide_cube :: box_object where
  "wide_cube =
     \<lparr>box_name = ''cube'', size_min = [0.03, 0.1, 0.03], size_max = [0.03, 0.1, 0.03],
      rgba = [1, 0, 0, 1],
      material = \<lparr>texture = ''WoodBlue'', tex_name = ''bluewood'', mat_name = ''bluewood_mat''\<rparr>,
      density = 85\<rparr>"

definition wide_scene :: env where
  "wide_scene =
     wide_env
       \<lparr>controller_config :=
          [''type'' \<mapsto> CfgOther ''OSC_POSE'', ''max_translation'' \<mapsto> CfgFloat 0.03],
        table_friction_val := 0.3,
        object_density_val := 85,
        mujoco_arena :=
          Some \<lparr>bin_pos = [0.5, 0, 0.065], bin_full_size = [0.45, 0.54, 0.107],
                bin_friction = [0.3, 0.005, 0.0001], hidden_walls = ''''\<rparr>,
        cube := Some wide_cube,
        placement_initializer :=
          Some \<lparr>sampler_name = ''ObjectSampler'', mujoco_objects = wide_cube,
                x_range = (0.095, 0.145), y_range = (0, 0), rotation = 0,
                ensure_object_boundary_in_range = False, ensure_valid_placement = False,
                reference_pos = [0.5, 0, 0.065], z_offset = 0\<rparr>\<rparr>"

text \<open>
  The default instance (ground mode, every range degenerate) with an empty controller
  configuration, and the box and state that loading it yields.
\<close>

definition ground_cube :: box_object where
  "ground_cube =
     \<lparr>box_name = ''cube'', size_min = [0.075, 0.1, 0.025], size_max = [0.075, 0.1, 0.025],
      rgba = [1, 0, 0, 1],
      material = \<lparr>texture = ''WoodRed'', tex_name = ''redwood'', mat_name = ''redwood_mat''\<rparr>,
      density = 86\<rparr>"

definition ground_scene :: env where
  "ground_scene =
     (default_env Map.empty)
       \<lparr>mujoco_arena :=
          Some \<lparr>bin_pos = [0.5, 0, 0.065], bin_full_size = [0.45, 0.54, 0.107],
                bin_friction = [0.3, 0.005, 0.0001], hidden_walls = ''''\<rparr>,
        cube := Some ground_cube,
        placement_initializer :=
          Some \<lparr>sampler_name = ''ObjectSampler'', mujoco_objects = ground_cube,
                x_range = (0.15, 0.15), y_range = (0, 0), rotation = 0,
                ensure_object_boundary_in_range = False, ensure_valid_placement = False,
                reference_pos = [0.5, 0, 0.065], z_offset = 0\<rparr>\<rparr>"

text \<open>\<open>wide_env\<close> with the table friction range inverted.\<close>

definition inverted_env :: env where
  "inverted_env = wide_env\<lparr>table_friction_min := 0.4, table_friction_max := 0.2\<rparr>"

subsection \<open>The placement range as the specification words it\<close>

text \<open>
  The specification's builder \<^verbatim>\<open>build(tableFootprint, objectHalfExtentX, clearanceValue,
  clearanceRangeMax)\<close>: \<open>xpos_max = tableFootprint.x / 2 - objectHalfExtentX\<close> and the x-range
  is \<open>[xpos_max - clearanceRangeMax, xpos_max - clearanceValue]\<close>, where \<open>clearanceValue\<close>
  is the clearance sampled for the episode. This definition follows the specification,
  not the source; it is compared with what \<open>build_placement\<close> computes.
\<close>

definition spec_x_range :: "real \<Rightarrow> real \<Rightarrow> real \<Rightarrow> real \<Rightarrow> real \<times> real" where
  "spec_x_range table_x half_extent_x clearance_value clearance_range_max =
     (let xpos_max = table_x / 2 - half_extent_x
      in (xpos_max - clearance_range_max, xpos_max - clearance_value))"

section \<open>Auxiliary facts\<close>

lemma unit_draws_shd: "unit_draws g \<Longrightarrow> 0 \<le> shd g \<and> shd g < 1"
  unfolding unit_draws_def by (metis snth.simps(1))

lemma unit_draws_stl: "unit_draws g \<Longrightarrow> unit_draws (stl g)"
  unfolding unit_draws_def by (metis snth.simps(2))

lemma unit_draws_sconst: "unit_draws (sconst (1/2))"
  unfolding unit_draws_def by simp

lemma bind_err_simps:
  "bind_err (Inl e) f = Inl e" "bind_err (Inr x) f = f x"
  by (simp_all add: bind_err_def)

lemma sample_table_eq:
  "sample_table s g =
     (if table_friction s = [] \<or> length (table_offset s) < 3 then Inl IndexError
      else
        (let f = table_friction_min s + (table_friction_max s - table_friction_min s) * shd g;
             ox = table_offset_x_min s + (table_offset_x_max s - table_offset_x_min s) * shd (stl g);
             oz = table_offset_z_min s + (table_offset_z_max s - table_offset_z_min s) * shd (stl (stl g));
             fr = (table_friction s)[0 := f];
             off = (table_offset s)[0 := ox, 2 := oz]
         in Inr (s\<lparr>table_friction_val := f, table_friction := fr, table_offset := off,
                   mujoco_arena := Some \<lparr>bin_pos = off, bin_full_size = table_full_size s,
                                          bin_friction = fr, hidden_walls = ''''\<rparr>\<rparr>,
                 stl (stl (stl g)))))"
  by (auto simp: sample_table_def uniform_def set_item_def bind_err_def Let_def)

lemma sample_object_eq:
  "sample_object s g =
     (if object_density_max s < object_density_min s then Inl ValueError
      else
        (let x = object_size_x_min s + (object_size_x_max s - object_size_x_min s) * shd g;
             y = object_size_y_min s + (object_size_y_max s - object_size_y_min s) * shd (stl g);
             z = object_size_z_min s + (object_size_z_max s - object_size_z_min s) * shd (stl (stl g));
             d = object_density_min s +
                 \<lfloor>shd (stl (stl (stl g))) * of_int (object_density_max s + 1 - object_density_min s)\<rfloor>;
             half = [x / 2, y / 2, z / 2]
         in Inr (s\<lparr>object_size_x_val := x, object_size_y_val := y, object_size_z_val := z,
                   object_density_val := d,
                   cube := Some \<lparr>box_name = ''cube'', size_min = half, size_max = half,
                                  rgba = [1, 0, 0, 1], material = obj_texture s,
                                  density = d\<rparr>\<rparr>,
                 stl (stl (stl (stl g))))))"
  by (auto simp: sample_object_def uniform_def randint_def bind_err_def Let_def obj_texture_def)

lemma load_model_prefix:
  "load_model s g =
     bind_err (sample_table (fst (load_prefix s g)) (snd (load_prefix s g))) (\<lambda>(s4, g4).
       bind_err (sample_object s4 g4) (\<lambda>(s5, g5).
         bind_err (build_placement s5) (\<lambda>s6. Inr (s6, g5))))"
  by (simp add: load_model_def load_prefix_def Let_def split_beta)

lemma build_placement_eq:
  "build_placement s =
     (case cube s of
        None \<Rightarrow> Inl AttributeError
      | Some c \<Rightarrow>
          if table_full_size s = [] \<or> box_size c = [] then Inl IndexError
          else Inr (s\<lparr>placement_initializer :=
                 Some \<lparr>sampler_name = ''ObjectSampler'', mujoco_objects = c,
                       x_range = (table_full_size s ! 0 / 2 - box_size c ! 0 - object_to_wall_dist_max s,
                                  table_full_size s ! 0 / 2 - box_size c ! 0 - object_to_wall_dist_min s),
                       y_range = (object_initial_pose_y_min s, object_initial_pose_y_max s),
                       rotation = 0, ensure_object_boundary_in_range = False,
                       ensure_valid_placement = False, reference_pos = table_offset s,
                       z_offset = 0\<rparr>\<rparr>))"
  by (auto simp: build_placement_def get_item_def bind_err_def Let_def split: option.splits)

lemma load_model_eq:
  "load_model s g =
     (let s3 = fst (load_prefix s g); g3 = snd (load_prefix s g)
      in if table_friction s3 = [] \<or> length (table_offset s3) < 3 then Inl IndexError
         else if object_density_max s3 < object_density_min s3 then Inl ValueError
         else if table_full_size s3 = [] then Inl IndexError
         else Inr (loaded s3 g3, stl (stl (stl (stl (stl (stl (stl g3))))))))"
  unfolding load_model_prefix sample_table_eq
  by (simp add: bind_err_simps Let_def sample_object_eq build_placement_eq box_size_def
        obj_texture_def loaded_def)

lemma resolve_occlusion_frame:
  "fst (resolve_occlusion s g) = s\<lparr>occlusion_type := occlusion_type (fst (resolve_occlusion s g))\<rparr>"
  by (simp add: resolve_occlusion_def choice_def)

lemma sample_controller_limits_eq:
  "sample_controller_limits s g =
     (let t = (controller_config s ''max_translation'' \<noteq> None);
          r = (controller_config s ''max_rotation'' \<noteq> None);
          g1 = (if t then stl g else g);
          vt = controller_max_translation_min s +
               (controller_max_translation_max s - controller_max_translation_min s) * shd g;
          vr = controller_max_rotation_min s +
               (controller_max_rotation_max s - controller_max_rotation_min s) * shd g1
      in (s\<lparr>controller_config :=
              (\<lambda>k. if k = ''max_rotation'' \<and> r then Some (CfgFloat vr)
                   else if k = ''max_translation'' \<and> t then Some (CfgFloat vt)
                   else controller_config s k)\<rparr>,
          if r then stl g1 else g1))"
proof -
  have upd: "\<And>m k v. m(k \<mapsto> v) = (\<lambda>j. if j = k then Some v else m j)"
    by (rule ext) simp
  show ?thesis
  proof (cases "controller_config s ''max_translation'' = None")
    case tn: True
    show ?thesis
    proof (cases "controller_config s ''max_rotation'' = None")
      case True
      with tn show ?thesis
        by (simp add: sample_controller_limits_def sample_max_translation_def
              sample_max_rotation_def)
    next
      case False
      with tn show ?thesis
        by (simp add: sample_controller_limits_def sample_max_translation_def
              sample_max_rotation_def uniform_def upd Let_def cong: if_cong)
    qed
  next
    case tp: False
    show ?thesis
    proof (cases "controller_config s ''max_rotation'' = None")
      case True
      with tp show ?thesis
        by (simp add: sample_controller_limits_def sample_max_translation_def
              sample_max_rotation_def uniform_def upd Let_def cong: if_cong)
    next
      case False
      with tp show ?thesis
        by (simp add: sample_controller_limits_def sample_max_translation_def
              sample_max_rotation_def uniform_def upd Let_def cong: if_cong)
    qed
  qed
qed

lemma init_box_size_eq:
  "init_box_size s =
     s\<lparr>object_size_x_min := if occlusion_type s = ''ground'' then 0.15 else 0.06,
       object_size_x_max := if occlusion_type s = ''ground'' then 0.15 else 0.06,
       object_size_x_val := if occlusion_type s = ''ground'' then 0.15 else 0.06,
       object_size_y_min := 0.20, object_size_y_max := 0.20, object_size_y_val := 0.20,
       object_size_z_min := if occlusion_type s = ''ground'' then 0.05 else 0.06,
       object_size_z_max := if occlusion_type s = ''ground'' then 0.05 else 0.06,
       object_size_z_val := if occlusion_type s = ''ground'' then 0.05 else 0.06,
       object_to_wall_dist_min :=
         if occlusion_type s = ''ground'' \<or> occlusion_type s = ''side'' then 0 else 0.05,
       object_to_wall_dist_max :=
         if occlusion_type s = ''ground'' \<or> occlusion_type s = ''side'' then 0 else 0.1\<rparr>"
  by (simp add: init_box_size_def Let_def)

lemma load_prefix_unfold:
  "load_prefix s g =
     sample_controller_limits (init_box_size (s\<lparr>occlusion_type := resolved_mode s g\<rparr>))
       (snd (resolve_occlusion s g))"
proof -
  have "fst (resolve_occlusion s g) = s\<lparr>occlusion_type := resolved_mode s g\<rparr>"
    using resolve_occlusion_frame [of s g] by (simp add: resolved_mode_def)
  then show ?thesis
    by (simp add: load_prefix_def split_beta Let_def)
qed

lemma load_prefix_frame:
  "table_friction (fst (load_prefix s g)) = table_friction s"
  "table_offset (fst (load_prefix s g)) = table_offset s"
  "table_full_size (fst (load_prefix s g)) = table_full_size s"
  "object_density_min (fst (load_prefix s g)) = object_density_min s"
  "object_density_max (fst (load_prefix s g)) = object_density_max s"
  "table_friction_min (fst (load_prefix s g)) = table_friction_min s"
  "table_friction_max (fst (load_prefix s g)) = table_friction_max s"
  "table_offset_x_min (fst (load_prefix s g)) = table_offset_x_min s"
  "table_offset_x_max (fst (load_prefix s g)) = table_offset_x_max s"
  "table_offset_z_min (fst (load_prefix s g)) = table_offset_z_min s"
  "table_offset_z_max (fst (load_prefix s g)) = table_offset_z_max s"
  "object_initial_pose_y_min (fst (load_prefix s g)) = object_initial_pose_y_min s"
  "object_initial_pose_y_max (fst (load_prefix s g)) = object_initial_pose_y_max s"
  "controller_max_translation_min (fst (load_prefix s g)) = controller_max_translation_min s"
  "controller_max_translation_max (fst (load_prefix s g)) = controller_max_translation_max s"
  "controller_max_rotation_min (fst (load_prefix s g)) = controller_max_rotation_min s"
  "controller_max_rotation_max (fst (load_prefix s g)) = controller_max_rotation_max s"
  "occlusion_type (fst (load_prefix s g)) = resolved_mode s g"
  by (simp_all add: load_prefix_unfold sample_controller_limits_eq Let_def init_box_size_eq)

lemma load_prefix_profile:
  "object_size_x_min (fst (load_prefix s g)) = (if resolved_mode s g = ''ground'' then 0.15 else 0.06)"
  "object_size_x_max (fst (load_prefix s g)) = (if resolved_mode s g = ''ground'' then 0.15 else 0.06)"
  "object_size_y_min (fst (load_prefix s g)) = 0.20"
  "object_size_y_max (fst (load_prefix s g)) = 0.20"
  "object_size_z_min (fst (load_prefix s g)) = (if resolved_mode s g = ''ground'' then 0.05 else 0.06)"
  "object_size_z_max (fst (load_prefix s g)) = (if resolved_mode s g = ''ground'' then 0.05 else 0.06)"
  "object_to_wall_dist_min (fst (load_prefix s g)) =
     (if resolved_mode s g = ''ground'' \<or> resolved_mode s g = ''side'' then 0 else 0.05)"
  "object_to_wall_dist_max (fst (load_prefix s g)) =
     (if resolved_mode s g = ''ground'' \<or> resolved_mode s g = ''side'' then 0 else 0.1)"
  by (simp_all add: load_prefix_unfold sample_controller_limits_eq Let_def init_box_size_eq)

lemma load_prefix_cfg:
  "controller_config (fst (load_prefix s g)) =
     controller_config (fst (sample_controller_limits s (snd (resolve_occlusion s g))))"
  "snd (load_prefix s g) = snd (sample_controller_limits s (snd (resolve_occlusion s g)))"
  by (simp_all add: load_prefix_unfold sample_controller_limits_eq Let_def init_box_size_eq
        cong: if_cong)

lemma loaded_samples:
  "table_friction_val (loaded s g) =
     table_friction_min s + (table_friction_max s - table_friction_min s) * shd g"
  "table_friction (loaded s g) =
     (table_friction s)[0 := table_friction_min s +
        (table_friction_max s - table_friction_min s) * shd g]"
  "table_offset (loaded s g) =
     (table_offset s)
       [0 := table_offset_x_min s + (table_offset_x_max s - table_offset_x_min s) * shd (stl g),
        2 := table_offset_z_min s +
             (table_offset_z_max s - table_offset_z_min s) * shd (stl (stl g))]"
  "object_size_x_val (loaded s g) =
     object_size_x_min s + (object_size_x_max s - object_size_x_min s) * shd (stl (stl (stl g)))"
  "object_size_y_val (loaded s g) =
     object_size_y_min s +
     (object_size_y_max s - object_size_y_min s) * shd (stl (stl (stl (stl g))))"
  "object_size_z_val (loaded s g) =
     object_size_z_min s +
     (object_size_z_max s - object_size_z_min s) * shd (stl (stl (stl (stl (stl g)))))"
  "object_density_val (loaded s g) =
     object_density_min s +
     \<lfloor>shd (stl (stl (stl (stl (stl (stl g)))))) *
      of_int (object_density_max s + 1 - object_density_min s)\<rfloor>"
  by (simp_all add: loaded_def Let_def)

lemma loaded_placement:
  "map_option x_range (placement_initializer (loaded s g)) =
     Some (table_full_size s ! 0 / 2 - object_size_x_val (loaded s g) / 2
             - object_to_wall_dist_max s,
           table_full_size s ! 0 / 2 - object_size_x_val (loaded s g) / 2
             - object_to_wall_dist_min s)"
  "map_option rotation (placement_initializer (loaded s g)) = Some 0"
  "map_option ensure_object_boundary_in_range (placement_initializer (loaded s g)) = Some False"
  "map_option ensure_valid_placement (placement_initializer (loaded s g)) = Some False"
  by (simp_all add: loaded_def Let_def)

lemma loaded_frame:
  "occlusion_type (loaded s g) = occlusion_type s"
  "table_full_size (loaded s g) = table_full_size s"
  "controller_config (loaded s g) = controller_config s"
  "object_size_x_min (loaded s g) = object_size_x_min s"
  "object_size_x_max (loaded s g) = object_size_x_max s"
  "object_size_y_min (loaded s g) = object_size_y_min s"
  "object_size_y_max (loaded s g) = object_size_y_max s"
  "object_size_z_min (loaded s g) = object_size_z_min s"
  "object_size_z_max (loaded s g) = object_size_z_max s"
  "object_to_wall_dist_min (loaded s g) = object_to_wall_dist_min s"
  "object_to_wall_dist_max (loaded s g) = object_to_wall_dist_max s"
  "object_density_min (loaded s g) = object_density_min s"
  "object_density_max (loaded s g) = object_density_max s"
  "table_friction_min (loaded s g) = table_friction_min s"
  "table_friction_max (loaded s g) = table_friction_max s"
  "table_offset_x_min (loaded s g) = table_offset_x_min s"
  "table_offset_x_max (loaded s g) = table_offset_x_max s"
  "table_offset_z_min (loaded s g) = table_offset_z_min s"
  "table_offset_z_max (loaded s g) = table_offset_z_max s"
  "controller_max_translation_min (loaded s g) = controller_max_translation_min s"
  "controller_max_translation_max (loaded s g) = controller_max_translation_max s"
  "controller_max_rotation_min (loaded s g) = controller_max_rotation_min s"
  "controller_max_rotation_max (loaded s g) = controller_max_rotation_max s"
  by (simp_all add: loaded_def Let_def)

lemma load_model_InrD:
  assumes "load_model s g = Inr (s', g')"
  shows "s' = loaded (fst (load_prefix s g)) (snd (load_prefix s g))"
    and "table_friction s \<noteq> []" and "3 \<le> length (table_offset s)"
    and "object_density_min s \<le> object_density_max s" and "table_full_size s \<noteq> []"
  using assms unfolding load_model_eq
  by (simp_all add: Let_def load_prefix_frame split: if_splits)

lemma load_model_returns:
  assumes "table_friction s \<noteq> []" and "3 \<le> length (table_offset s)"
    and "object_density_min s \<le> object_density_max s" and "table_full_size s \<noteq> []"
  shows "load_model s g =
           Inr (loaded (fst (load_prefix s g)) (snd (load_prefix s g)),
                stl (stl (stl (stl (stl (stl (stl (snd (load_prefix s g)))))))))"
  using assms unfolding load_model_eq
  by (simp add: Let_def load_prefix_frame)

lemma uniform_range:
  fixes a b u :: real
  assumes "a \<le> b" and "0 \<le> u" and "u < 1"
  shows "a \<le> a + (b - a) * u" and "a + (b - a) * u \<le> b"
proof -
  have "0 \<le> (b - a) * u" using assms by simp
  then show "a \<le> a + (b - a) * u" by simp
  have "(b - a) * u \<le> (b - a) * 1"
    using assms by (intro mult_left_mono) simp_all
  then show "a + (b - a) * u \<le> b" by simp
qed

lemma randint_range:
  fixes a b :: int and u :: real
  assumes "a \<le> b" and "0 \<le> u" and "u < 1"
  shows "a \<le> a + \<lfloor>u * of_int (b + 1 - a)\<rfloor>" and "a + \<lfloor>u * of_int (b + 1 - a)\<rfloor> \<le> b"
proof -
  have pos: "0 < (of_int (b + 1 - a) :: real)" using assms by simp
  have "0 \<le> u * of_int (b + 1 - a)" using assms pos by simp
  then show "a \<le> a + \<lfloor>u * of_int (b + 1 - a)\<rfloor>" by simp
  have "u * of_int (b + 1 - a) < 1 * of_int (b + 1 - a)"
    using assms pos by (intro mult_strict_right_mono) simp_all
  then have "\<lfloor>u * of_int (b + 1 - a)\<rfloor> < b + 1 - a"
    by (simp add: floor_less_iff)
  then show "a + \<lfloor>u * of_int (b + 1 - a)\<rfloor> \<le> b" by simp
qed

section \<open>Properties of the episode configuration\<close>

subsection \<open>Placement sampler flags and gripper friction\<close>

lemma load_wide: "load_model wide_env (sconst (1/2)) = Inr (wide_scene, sconst (1/2))"
  by (simp add: load_model_def resolve_occlusion_def init_box_size_def
        sample_controller_limits_def sample_max_translation_def sample_max_rotation_def
        sample_table_def sample_object_def build_placement_def uniform_def randint_def
        set_item_def get_item_def bind_err_def box_size_def obj_texture_def
        wide_env_def wide_scene_def wide_cube_def init_def Let_def)

lemma load_ground:
  "load_model (default_env Map.empty) (sconst (1/2)) = Inr (ground_scene, sconst (1/2))"
  by (simp add: load_model_def resolve_occlusion_def init_box_size_def
        sample_controller_limits_def sample_max_translation_def sample_max_rotation_def
        sample_table_def sample_object_def build_placement_def uniform_def randint_def
        set_item_def get_item_def bind_err_def box_size_def obj_texture_def
        default_env_def ground_scene_def ground_cube_def init_def Let_def)

text \<open>
  C9. Every placement sampler that \<open>_load_model\<close> builds has rotation zero and has both the
  boundary-containment flag and the valid-placement flag switched off.
\<close>

theorem placement_sampler_flags:
  assumes "load_model s g = Inr (s', g')"
  shows "map_option rotation (placement_initializer s') = Some 0 \<and>
         map_option ensure_object_boundary_in_range (placement_initializer s') = Some False \<and>
         map_option ensure_valid_placement (placement_initializer s') = Some False"
  using load_model_InrD(1) [OF assms] by (simp add: loaded_placement)

theorem placement_sampler_flags_witness:
  "load_model wide_env (sconst (1/2)) = Inr (wide_scene, sconst (1/2)) \<and>
   map_option rotation (placement_initializer wide_scene) = Some 0 \<and>
   map_option ensure_object_boundary_in_range (placement_initializer wide_scene) = Some False \<and>
   map_option ensure_valid_placement (placement_initializer wide_scene) = Some False"
  using placement_sampler_flags [OF load_wide] load_wide by simp

text \<open>
  C10. \<open>_load_robots\<close> always returns; the friction vector it gives the robot is the fixed
  vector with only its first component replaced by the draw, so the second and third
  components are \<open>0.015\<close> and \<open>0.0003\<close> whatever the configuration; for an ordered range and
  a unit draw the first component lies in the configured range.
\<close>

theorem gripper_friction_vector:
  "load_robots s g =
     Inr (s\<lparr>gripper_friction_val :=
              gripper_friction_min s + (gripper_friction_max s - gripper_friction_min s) * shd g,
            robot_gripper_friction :=
              [gripper_friction_min s + (gripper_friction_max s - gripper_friction_min s) * shd g,
               0.015, 0.0003]\<rparr>, stl g) \<and>
   (gripper_friction_min s \<le> gripper_friction_max s \<and> 0 \<le> shd g \<and> shd g < 1 \<longrightarrow>
      gripper_friction_min s \<le>
        gripper_friction_min s + (gripper_friction_max s - gripper_friction_min s) * shd g \<and>
      gripper_friction_min s + (gripper_friction_max s - gripper_friction_min s) * shd g
        \<le> gripper_friction_max s)"
proof (intro conjI impI)
  show "load_robots s g =
     Inr (s\<lparr>gripper_friction_val :=
              gripper_friction_min s + (gripper_friction_max s - gripper_friction_min s) * shd g,
            robot_gripper_friction :=
              [gripper_friction_min s + (gripper_friction_max s - gripper_friction_min s) * shd g,
               0.015, 0.0003]\<rparr>, stl g)"
    by (simp add: load_robots_def uniform_def set_item_def bind_err_def Let_def)
next
  assume h: "gripper_friction_min s \<le> gripper_friction_max s \<and> 0 \<le> shd g \<and> shd g < 1"
  then show "gripper_friction_min s \<le>
        gripper_friction_min s + (gripper_friction_max s - gripper_friction_min s) * shd g"
    using uniform_range(1) by blast
  from h show "gripper_friction_min s + (gripper_friction_max s - gripper_friction_min s) * shd g
        \<le> gripper_friction_max s"
    using uniform_range(2) by blast
qed

theorem gripper_friction_vector_witness:
  "gripper_friction_min wide_env \<le> gripper_friction_max wide_env \<and>
   0 \<le> shd (sconst (1/2 :: real)) \<and> shd (sconst (1/2 :: real)) < 1 \<and>
   load_robots wide_env (sconst (1/2)) =
     Inr (wide_env\<lparr>gripper_friction_val := 3, robot_gripper_friction := [3, 0.015, 0.0003]\<rparr>,
          sconst (1/2)) \<and>
   gripper_friction_min wide_env = 2 \<and> gripper_friction_max wide_env = 4"
  using gripper_friction_vector [of wide_env "sconst (1/2)"]
  by (simp add: wide_env_def init_def init_box_size_def)

subsection \<open>The size and clearance profile\<close>

lemma loaded_cube:
  "map_option size_min (cube (loaded s g)) =
     Some [object_size_x_val (loaded s g) / 2, object_size_y_val (loaded s g) / 2,
           object_size_z_val (loaded s g) / 2]"
  "map_option size_max (cube (loaded s g)) =
     Some [object_size_x_val (loaded s g) / 2, object_size_y_val (loaded s g) / 2,
           object_size_z_val (loaded s g) / 2]"
  "map_option density (cube (loaded s g)) = Some (object_density_val (loaded s g))"
  by (simp_all add: loaded_def Let_def)

lemma load_model_mode:
  assumes "load_model s g = Inr (s', g')"
  shows "occlusion_type s' = resolved_mode s g"
  using load_model_InrD(1) [OF assms] by (simp add: loaded_frame load_prefix_frame)

lemma load_model_sizes:
  assumes "load_model s g = Inr (s', g')"
  shows "object_size_x_val s' = (if occlusion_type s' = ''ground'' then 0.15 else 0.06)"
    and "object_size_y_val s' = 0.20"
    and "object_size_z_val s' = (if occlusion_type s' = ''ground'' then 0.05 else 0.06)"
    and "object_to_wall_dist_min s' =
           (if occlusion_type s' = ''ground'' \<or> occlusion_type s' = ''side'' then 0 else 0.05)"
    and "object_to_wall_dist_max s' =
           (if occlusion_type s' = ''ground'' \<or> occlusion_type s' = ''side'' then 0 else 0.1)"
  using load_model_InrD(1) [OF assms]
  by (simp_all add: loaded_frame loaded_samples load_prefix_frame load_prefix_profile)

lemma loaded_box_size:
  "map_option box_size (cube (loaded s g)) =
     Some [object_size_x_val (loaded s g) / 2, object_size_y_val (loaded s g) / 2,
           object_size_z_val (loaded s g) / 2]"
  by (simp add: loaded_def Let_def box_size_def)

text \<open>
  C3 (as amended). After every successful \<open>_load_model\<close> the sampled object sizes and the
  clearance range are those of the fixed table, selected by the resolved occlusion mode.
  The table's figures are the full sizes \<open>object_size_x/y/z_val\<close>; the box is built with
  half of each, so they are not half-extents. Ground gives sizes \<open>0.15\<close>, \<open>0.20\<close>, \<open>0.05\<close>,
  half-extents \<open>0.075\<close>, \<open>0.10\<close>, \<open>0.025\<close> and the clearance range \<open>[0, 0]\<close>; side gives
  sizes \<open>0.06\<close>, \<open>0.20\<close>, \<open>0.06\<close>, half-extents \<open>0.03\<close>, \<open>0.10\<close>, \<open>0.03\<close> and the
  clearance range \<open>[0, 0]\<close>; any other mode gives the sizes and half-extents of side and
  the clearance range \<open>[0.05, 0.10]\<close>. No clearance is drawn: the two ends of the range go
  into the x-range of the placement sampler.
\<close>

theorem size_profile_table:
  assumes "load_model s g = Inr (s', g')"
  shows "(occlusion_type s' = ''ground'' \<longrightarrow>
            object_size_x_val s' = 0.15 \<and> object_size_y_val s' = 0.20 \<and>
            object_size_z_val s' = 0.05 \<and>
            map_option box_size (cube s') = Some [0.075, 0.10, 0.025] \<and>
            object_to_wall_dist_min s' = 0 \<and> object_to_wall_dist_max s' = 0) \<and>
         (occlusion_type s' = ''side'' \<longrightarrow>
            object_size_x_val s' = 0.06 \<and> object_size_y_val s' = 0.20 \<and>
            object_size_z_val s' = 0.06 \<and>
            map_option box_size (cube s') = Some [0.03, 0.10, 0.03] \<and>
            object_to_wall_dist_min s' = 0 \<and> object_to_wall_dist_max s' = 0) \<and>
         (occlusion_type s' \<noteq> ''ground'' \<and> occlusion_type s' \<noteq> ''side'' \<longrightarrow>
            object_size_x_val s' = 0.06 \<and> object_size_y_val s' = 0.20 \<and>
            object_size_z_val s' = 0.06 \<and>
            map_option box_size (cube s') = Some [0.03, 0.10, 0.03] \<and>
            object_to_wall_dist_min s' = 0.05 \<and> object_to_wall_dist_max s' = 0.1) \<and>
         map_option size_min (cube s') =
           Some [object_size_x_val s' / 2, object_size_y_val s' / 2, object_size_z_val s' / 2] \<and>
         map_option size_max (cube s') = map_option size_min (cube s') \<and>
         map_option x_range (placement_initializer s') =
           Some (table_full_size s' ! 0 / 2 - object_size_x_val s' / 2
                   - object_to_wall_dist_max s',
                 table_full_size s' ! 0 / 2 - object_size_x_val s' / 2
                   - object_to_wall_dist_min s')"
proof -
  note e = load_model_InrD(1) [OF assms]
  note z = load_model_sizes [OF assms]
  have c: "map_option size_min (cube s') =
             Some [object_size_x_val s' / 2, object_size_y_val s' / 2, object_size_z_val s' / 2]"
          "map_option size_max (cube s') = map_option size_min (cube s')"
    using e by (simp_all add: loaded_cube)
  have b: "map_option box_size (cube s') =
             Some [object_size_x_val s' / 2, object_size_y_val s' / 2, object_size_z_val s' / 2]"
    using e by (simp add: loaded_box_size)
  have r: "map_option x_range (placement_initializer s') =
           Some (table_full_size s' ! 0 / 2 - object_size_x_val s' / 2
                   - object_to_wall_dist_max s',
                 table_full_size s' ! 0 / 2 - object_size_x_val s' / 2
                   - object_to_wall_dist_min s')"
    using e by (simp add: loaded_placement loaded_frame)
  have g: "object_size_x_val s' = 0.15 \<and> object_size_y_val s' = 0.20 \<and>
            object_size_z_val s' = 0.05 \<and>
            map_option box_size (cube s') = Some [0.075, 0.10, 0.025] \<and>
            object_to_wall_dist_min s' = 0 \<and> object_to_wall_dist_max s' = 0"
    if "occlusion_type s' = ''ground''"
    using that z by (simp add: b)
  have d: "object_size_x_val s' = 0.06 \<and> object_size_y_val s' = 0.20 \<and>
            object_size_z_val s' = 0.06 \<and>
            map_option box_size (cube s') = Some [0.03, 0.10, 0.03] \<and>
            object_to_wall_dist_min s' = 0 \<and> object_to_wall_dist_max s' = 0"
    if "occlusion_type s' = ''side''"
    using that z by (simp add: b)
  have n: "object_size_x_val s' = 0.06 \<and> object_size_y_val s' = 0.20 \<and>
            object_size_z_val s' = 0.06 \<and>
            map_option box_size (cube s') = Some [0.03, 0.10, 0.03] \<and>
            object_to_wall_dist_min s' = 0.05 \<and> object_to_wall_dist_max s' = 0.1"
    if "occlusion_type s' \<noteq> ''ground'' \<and> occlusion_type s' \<noteq> ''side''"
    using that z by (simp add: b)
  from g d n c r show ?thesis by blast
qed

theorem size_profile_table_witness:
  "load_model wide_env (sconst (1/2)) = Inr (wide_scene, sconst (1/2)) \<and>
   occlusion_type wide_scene \<noteq> ''ground'' \<and> occlusion_type wide_scene \<noteq> ''side'' \<and>
   object_size_x_val wide_scene = 0.06 \<and> object_size_y_val wide_scene = 0.20 \<and>
   object_size_z_val wide_scene = 0.06 \<and>
   map_option box_size (cube wide_scene) = Some [0.03, 0.10, 0.03] \<and>
   object_to_wall_dist_min wide_scene = 0.05 \<and> object_to_wall_dist_max wide_scene = 0.1"
proof -
  have m: "occlusion_type wide_scene \<noteq> ''ground'' \<and> occlusion_type wide_scene \<noteq> ''side''"
    by (simp add: wide_scene_def wide_env_def init_def init_box_size_def)
  have "object_size_x_val wide_scene = 0.06 \<and> object_size_y_val wide_scene = 0.20 \<and>
        object_size_z_val wide_scene = 0.06 \<and>
        map_option box_size (cube wide_scene) = Some [0.03, 0.10, 0.03] \<and>
        object_to_wall_dist_min wide_scene = 0.05 \<and> object_to_wall_dist_max wide_scene = 0.1"
    using size_profile_table [OF load_wide, THEN conjunct2, THEN conjunct2, THEN conjunct1] m
    by (rule mp)
  with load_wide m show ?thesis by (intro conjI) simp_all
qed

text \<open>
  C3 as stated fails. In ground mode the x half-extent of the object is \<open>0.075\<close>, not
  \<open>0.15\<close>: the default instance loads a box with half-extents \<open>0.075\<close>, \<open>0.10\<close>, \<open>0.025\<close>,
  which are not the figures \<open>0.15\<close>, \<open>0.20\<close>, \<open>0.05\<close> that the claim gives as half-extents.
\<close>

theorem size_profile_table_counterexample:
  "load_model (default_env Map.empty) (sconst (1/2)) = Inr (ground_scene, sconst (1/2)) \<and>
   occlusion_type ground_scene = ''ground'' \<and>
   map_option box_size (cube ground_scene) = Some [0.075, 0.10, 0.025] \<and>
   map_option box_size (cube ground_scene) \<noteq> Some [0.15, 0.20, 0.05]"
proof -
  have m: "occlusion_type ground_scene = ''ground''"
    by (simp add: ground_scene_def default_env_def init_def init_box_size_def)
  have b: "map_option box_size (cube ground_scene) = Some [0.075, 0.10, 0.025]"
    by (simp add: ground_scene_def ground_cube_def box_size_def)
  have "map_option box_size (cube ground_scene) \<noteq> Some [0.15, 0.20, 0.05]"
    unfolding b by simp
  with load_ground m b show ?thesis by (intro conjI)
qed

subsection \<open>Occlusion mode resolution\<close>

lemma choice_three:
  fixes u :: real
  assumes "0 \<le> u" and "u < 1"
  shows "[a, b, c] ! nat \<lfloor>u * 3\<rfloor> = (if u < 1/3 then a else if u < 2/3 then b else c)"
proof -
  consider "u < 1/3" | "1/3 \<le> u" "u < 2/3" | "2/3 \<le> u" by linarith
  then show ?thesis
  proof cases
    case 1
    then have "\<lfloor>u * 3\<rfloor> = 0" using assms by (intro floor_unique) simp_all
    with 1 show ?thesis by simp
  next
    case 2
    then have "\<lfloor>u * 3\<rfloor> = 1" using assms by (intro floor_unique) simp_all
    with 2 show ?thesis by simp
  next
    case 3
    then have "\<lfloor>u * 3\<rfloor> = 2" using assms by (intro floor_unique) simp_all
    with 3 show ?thesis by simp
  qed
qed

text \<open>
  C4. With randomisation off, mode resolution changes neither the state nor the generator,
  so the requested mode stands, whatever string it is. With randomisation on and a unit
  draw \<open>u\<close>, the mode is \<open>ground\<close> for \<open>u < 1/3\<close>, \<open>side\<close> for \<open>1/3 \<le> u < 2/3\<close> and \<open>none\<close>
  for \<open>2/3 \<le> u\<close>: one of exactly three variants, each on a third of the unit interval.
  The mode of the loaded state is the resolved one.
\<close>

theorem occlusion_resolution:
  "(\<not> use_random_occlusion s \<longrightarrow> resolve_occlusion s g = (s, g)) \<and>
   (use_random_occlusion s \<and> 0 \<le> shd g \<and> shd g < 1 \<longrightarrow>
      occlusion_type (fst (resolve_occlusion s g)) =
        (if shd g < 1/3 then ''ground'' else if shd g < 2/3 then ''side'' else ''none'')) \<and>
   (\<forall>s' g'. load_model s g = Inr (s', g') \<longrightarrow>
      occlusion_type s' = occlusion_type (fst (resolve_occlusion s g)))"
proof (intro conjI impI allI)
  assume "\<not> use_random_occlusion s"
  then show "resolve_occlusion s g = (s, g)" by (simp add: resolve_occlusion_def)
next
  assume h: "use_random_occlusion s \<and> 0 \<le> shd g \<and> shd g < 1"
  then have "[''ground'', ''side'', ''none''] ! nat \<lfloor>shd g * 3\<rfloor> =
             (if shd g < 1/3 then ''ground'' else if shd g < 2/3 then ''side'' else ''none'')"
    using choice_three [of "shd g" "''ground''" "''side''" "''none''"] by simp
  with h show "occlusion_type (fst (resolve_occlusion s g)) =
        (if shd g < 1/3 then ''ground'' else if shd g < 2/3 then ''side'' else ''none'')"
    by (simp add: resolve_occlusion_def choice_def)
next
  fix s' g'
  assume "load_model s g = Inr (s', g')"
  then show "occlusion_type s' = occlusion_type (fst (resolve_occlusion s g))"
    using load_model_mode by (simp add: resolved_mode_def)
qed

theorem occlusion_resolution_witness:
  "\<not> use_random_occlusion wide_env \<and>
   resolve_occlusion wide_env (sconst (1/2)) = (wide_env, sconst (1/2)) \<and>
   use_random_occlusion (wide_env\<lparr>use_random_occlusion := True\<rparr>) \<and>
   0 \<le> shd (sconst (1/2 :: real)) \<and> shd (sconst (1/2 :: real)) < 1 \<and>
   occlusion_type (fst (resolve_occlusion (wide_env\<lparr>use_random_occlusion := True\<rparr>)
     (sconst (1/2)))) = ''side'' \<and>
   load_model wide_env (sconst (1/2)) = Inr (wide_scene, sconst (1/2)) \<and>
   occlusion_type wide_scene = ''none''"
proof -
  let ?G = "sconst (1/2 :: real)"
  let ?R = "wide_env\<lparr>use_random_occlusion := True\<rparr>"
  have a: "\<not> use_random_occlusion wide_env"
    by (simp add: wide_env_def init_def init_box_size_def)
  have b: "use_random_occlusion ?R \<and> 0 \<le> shd ?G \<and> shd ?G < 1"
    by simp
  have "\<not> use_random_occlusion wide_env \<longrightarrow> resolve_occlusion wide_env ?G = (wide_env, ?G)"
    using occlusion_resolution [of wide_env ?G] by (rule conjunct1)
  with a have 1: "resolve_occlusion wide_env ?G = (wide_env, ?G)"
    by (rule rev_mp)
  have "use_random_occlusion ?R \<and> 0 \<le> shd ?G \<and> shd ?G < 1 \<longrightarrow>
          occlusion_type (fst (resolve_occlusion ?R ?G)) =
            (if shd ?G < 1/3 then ''ground'' else if shd ?G < 2/3 then ''side'' else ''none'')"
    using occlusion_resolution [of ?R ?G] by (rule conjunct1 [OF conjunct2])
  with b have "occlusion_type (fst (resolve_occlusion ?R ?G)) =
            (if shd ?G < 1/3 then ''ground'' else if shd ?G < 2/3 then ''side'' else ''none'')"
    by (rule rev_mp)
  then have 2: "occlusion_type (fst (resolve_occlusion ?R ?G)) = ''side''"
    by simp
  have 3: "occlusion_type wide_scene = ''none''"
    by (simp add: wide_scene_def wide_env_def init_def init_box_size_def)
  from a b 1 2 3 load_wide show ?thesis
    by (intro conjI) simp_all
qed

subsection \<open>The table step\<close>

lemma load_model_table:
  assumes "load_model s g = Inr (s', g')"
  shows "table_friction s' = (table_friction s)[0 := table_friction_val s']"
    and "table_friction_val s' =
           fst (uniform (table_friction_min s) (table_friction_max s) (snd (load_prefix s g)))"
    and "table_offset s' =
           (table_offset s)
             [0 := fst (uniform (table_offset_x_min s) (table_offset_x_max s)
                          (stl (snd (load_prefix s g)))),
              2 := fst (uniform (table_offset_z_min s) (table_offset_z_max s)
                          (stl (stl (snd (load_prefix s g)))))]"
  using load_model_InrD(1) [OF assms]
  by (simp_all add: loaded_samples load_prefix_frame uniform_def)

text \<open>
  C8. On every successful \<open>_load_model\<close> the table step draws three values: the first
  friction coefficient and the x and z components of the table offset. The friction array
  differs from the one before at index 0 only, the offset array at indices 0 and 2 only;
  the y component of the offset and the second and third friction coefficients are the
  ones the instance had, and the default constructor's y offset is 0.
\<close>

theorem table_step_frame:
  assumes "load_model s g = Inr (s', g')"
  shows "table_friction s' = (table_friction s)[0 := table_friction_val s'] \<and>
         table_offset s' = (table_offset s)[0 := table_offset s' ! 0, 2 := table_offset s' ! 2] \<and>
         table_offset s' ! 1 = table_offset s ! 1 \<and>
         table_friction s' ! 1 = table_friction s ! 1 \<and>
         table_friction s' ! 2 = table_friction s ! 2 \<and>
         length (table_friction s') = length (table_friction s) \<and>
         length (table_offset s') = length (table_offset s) \<and>
         table_friction_val s' =
           fst (uniform (table_friction_min s) (table_friction_max s) (snd (load_prefix s g))) \<and>
         table_offset s' ! 0 =
           fst (uniform (table_offset_x_min s) (table_offset_x_max s)
                  (stl (snd (load_prefix s g)))) \<and>
         table_offset s' ! 2 =
           fst (uniform (table_offset_z_min s) (table_offset_z_max s)
                  (stl (stl (snd (load_prefix s g))))) \<and>
         table_offset (default_env cfg) ! 1 = 0"
proof -
  note t = load_model_table [OF assms]
  have len: "3 \<le> length (table_offset s)" "table_friction s \<noteq> []"
    using load_model_InrD [OF assms] by simp_all
  then have ne: "table_offset s \<noteq> []" by auto
  have d: "table_offset (default_env cfg) ! 1 = 0"
    by (simp add: default_env_def init_def init_box_size_def)
  have o0: "table_offset s' ! 0 =
           fst (uniform (table_offset_x_min s) (table_offset_x_max s)
                  (stl (snd (load_prefix s g))))"
    using len ne by (simp add: t(3))
  have o2: "table_offset s' ! 2 =
           fst (uniform (table_offset_z_min s) (table_offset_z_max s)
                  (stl (stl (snd (load_prefix s g)))))"
    using len ne by (simp add: t(3))
  have o: "table_offset s' = (table_offset s)[0 := table_offset s' ! 0, 2 := table_offset s' ! 2]"
    unfolding o0 o2 by (rule t(3))
  have o1: "table_offset s' ! 1 = table_offset s ! 1"
    by (simp add: t(3))
  have f: "table_friction s' ! 1 = table_friction s ! 1" "table_friction s' ! 2 = table_friction s ! 2"
    by (simp_all add: t(1))
  have l: "length (table_friction s') = length (table_friction s)"
    "length (table_offset s') = length (table_offset s)"
    by (simp_all add: t(1) t(3))
  show ?thesis
    using t(1) t(2) o o1 f l o0 o2 d by (intro conjI)
qed

theorem table_step_frame_witness:
  "load_model wide_env (sconst (1/2)) = Inr (wide_scene, sconst (1/2)) \<and>
   table_offset wide_scene ! 1 = table_offset wide_env ! 1 \<and>
   table_friction wide_scene ! 1 = table_friction wide_env ! 1 \<and>
   table_friction wide_scene ! 2 = table_friction wide_env ! 2 \<and>
   table_friction wide_env = [0.3, 0.005, 0.0001] \<and> table_offset wide_env = [0.5, 0, 0.065]"
proof -
  have e: "table_friction wide_env = [0.3, 0.005, 0.0001]" "table_offset wide_env = [0.5, 0, 0.065]"
    by (simp_all add: wide_env_def init_def init_box_size_def)
  from table_step_frame [OF load_wide] have
    "table_offset wide_scene ! 1 = table_offset wide_env ! 1"
    "table_friction wide_scene ! 1 = table_friction wide_env ! 1"
    "table_friction wide_scene ! 2 = table_friction wide_env ! 2"
    by blast+
  with e load_wide show ?thesis by (intro conjI)
qed

subsection \<open>The placement x-range\<close>

lemma loaded_cube_size:
  "map_option (\<lambda>c. box_size c ! 0) (cube (loaded s g)) = Some (object_size_x_val (loaded s g) / 2)"
  by (simp add: loaded_def Let_def box_size_def)

text \<open>
  C1 (as amended). On every successful \<open>_load_model\<close> the x-range of the placement sampler is
  \<open>[xpos_max - d_max, xpos_max - d_min]\<close>, where \<open>xpos_max\<close> is half the table's x size
  minus the box's x half-size \<open>object_size_x_val / 2\<close> and \<open>d_min\<close>, \<open>d_max\<close> are the two
  ends of the clearance range \<open>object_to_wall_dist_min/max\<close> of the resolved mode; no
  clearance is drawn. In ground mode with table x size \<open>0.45\<close> the range is \<open>[0.15, 0.15]\<close>.
\<close>

theorem placement_x_range:
  assumes "load_model s g = Inr (s', g')"
  shows "map_option x_range (placement_initializer s') =
           Some (table_full_size s' ! 0 / 2 - object_size_x_val s' / 2
                   - object_to_wall_dist_max s',
                 table_full_size s' ! 0 / 2 - object_size_x_val s' / 2
                   - object_to_wall_dist_min s') \<and>
         map_option (\<lambda>c. box_size c ! 0) (cube s') = Some (object_size_x_val s' / 2) \<and>
         (occlusion_type s' = ''ground'' \<and> table_full_size s' ! 0 = 0.45 \<longrightarrow>
            map_option x_range (placement_initializer s') = Some (0.15, 0.15))"
proof -
  have r: "map_option x_range (placement_initializer s') =
           Some (table_full_size s' ! 0 / 2 - object_size_x_val s' / 2
                   - object_to_wall_dist_max s',
                 table_full_size s' ! 0 / 2 - object_size_x_val s' / 2
                   - object_to_wall_dist_min s')"
    using load_model_InrD(1) [OF assms] by (simp add: loaded_placement loaded_frame)
  have c: "map_option (\<lambda>c. box_size c ! 0) (cube s') = Some (object_size_x_val s' / 2)"
    using load_model_InrD(1) [OF assms] by (simp add: loaded_cube_size)
  have g: "map_option x_range (placement_initializer s') = Some (0.15, 0.15)"
    if "occlusion_type s' = ''ground'' \<and> table_full_size s' ! 0 = 0.45"
    using that load_model_sizes [OF assms] by (simp add: r)
  from r c g show ?thesis by blast
qed

theorem placement_x_range_witness:
  "load_model (default_env Map.empty) (sconst (1/2)) = Inr (ground_scene, sconst (1/2)) \<and>
   occlusion_type ground_scene = ''ground'' \<and> table_full_size ground_scene ! 0 = 0.45 \<and>
   map_option x_range (placement_initializer ground_scene) = Some (0.15, 0.15)"
proof -
  have a: "occlusion_type ground_scene = ''ground'' \<and> table_full_size ground_scene ! 0 = 0.45"
    by (simp add: ground_scene_def default_env_def init_def init_box_size_def)
  have "occlusion_type ground_scene = ''ground'' \<and> table_full_size ground_scene ! 0 = 0.45 \<longrightarrow>
          map_option x_range (placement_initializer ground_scene) = Some (0.15, 0.15)"
    using placement_x_range [OF load_ground] by (rule conjunct2 [OF conjunct2])
  with a have "map_option x_range (placement_initializer ground_scene) = Some (0.15, 0.15)"
    by (rule rev_mp)
  with a load_ground show ?thesis by (intro conjI) simp_all
qed

text \<open>
  C1 as stated fails. In mode \<open>none\<close> the clearance range is \<open>[0.05, 0.1]\<close>; a clearance
  drawn from it with the draw \<open>1/2\<close> is \<open>0.075\<close>, for which the specification's builder
  gives \<open>[0.095, 0.12]\<close>, while the sampler is built with \<open>[0.095, 0.145]\<close>.
\<close>

theorem placement_x_range_counterexample:
  "load_model wide_env (sconst (1/2)) = Inr (wide_scene, sconst (1/2)) \<and>
   map_option x_range (placement_initializer wide_scene) = Some (0.095, 0.145) \<and>
   fst (uniform (object_to_wall_dist_min wide_scene) (object_to_wall_dist_max wide_scene)
          (sconst (1/2))) = 0.075 \<and>
   spec_x_range (table_full_size wide_scene ! 0) (object_size_x_val wide_scene / 2) 0.075
     (object_to_wall_dist_max wide_scene) = (0.095, 0.12) \<and>
   map_option x_range (placement_initializer wide_scene) \<noteq>
     Some (spec_x_range (table_full_size wide_scene ! 0) (object_size_x_val wide_scene / 2) 0.075
             (object_to_wall_dist_max wide_scene))"
proof -
  have f: "table_full_size wide_scene ! 0 = 0.45" "object_size_x_val wide_scene = 0.06"
    "object_to_wall_dist_min wide_scene = 0.05" "object_to_wall_dist_max wide_scene = 0.1"
    "map_option x_range (placement_initializer wide_scene) = Some (0.095, 0.145)"
    by (simp_all add: wide_scene_def wide_env_def init_def init_box_size_def)
  show ?thesis
    using load_wide by (simp add: f uniform_def spec_x_range_def)
qed

subsection \<open>Controller limits\<close>

lemma resolve_occlusion_rng:
  "snd (resolve_occlusion s g) = (if use_random_occlusion s then stl g else g)"
  by (simp add: resolve_occlusion_def choice_def)

lemma sample_max_translation_rng:
  "snd (sample_max_translation s g) =
     (if controller_config s ''max_translation'' = None then g else stl g)"
  by (simp add: sample_max_translation_def uniform_def)

lemma sample_controller_limits_rng:
  "snd (sample_controller_limits s g) =
     (if controller_config s ''max_rotation'' = None then snd (sample_max_translation s g)
      else stl (snd (sample_max_translation s g)))"
  by (simp add: sample_controller_limits_eq Let_def sample_max_translation_rng)

lemma sample_controller_limits_cfg:
  "controller_config (fst (sample_controller_limits s g)) k =
     (if k = ''max_rotation'' \<and> controller_config s ''max_rotation'' \<noteq> None then
        Some (CfgFloat
          (fst (uniform (controller_max_rotation_min s) (controller_max_rotation_max s)
                  (snd (sample_max_translation s g)))))
      else if k = ''max_translation'' \<and> controller_config s ''max_translation'' \<noteq> None then
        Some (CfgFloat
          (fst (uniform (controller_max_translation_min s) (controller_max_translation_max s) g)))
      else controller_config s k)"
  by (simp add: sample_controller_limits_eq Let_def sample_max_translation_rng uniform_def)

lemma unit_draws_prefix:
  assumes "unit_draws g"
  shows "unit_draws (snd (load_prefix s g))"
proof -
  have a: "unit_draws (snd (resolve_occlusion s g))"
    using assms by (simp add: resolve_occlusion_rng unit_draws_stl)
  have b: "unit_draws (snd (sample_max_translation s h))" if "unit_draws h" for h
    using that by (simp add: sample_max_translation_rng unit_draws_stl)
  have c: "unit_draws (snd (sample_controller_limits s h))" if "unit_draws h" for h
    using b [OF that] by (simp add: sample_controller_limits_rng unit_draws_stl)
  show ?thesis
    using c [OF a] by (simp add: load_prefix_cfg)
qed

lemma load_model_cfg:
  assumes "load_model s g = Inr (s', g')"
  shows "controller_config s' =
           controller_config (fst (sample_controller_limits s (snd (resolve_occlusion s g))))"
  using load_model_InrD(1) [OF assms] by (simp add: loaded_frame load_prefix_cfg)

lemma load_model_error_cfg:
  "isl (load_model (s\<lparr>controller_config := c\<rparr>) g) = isl (load_model s g)"
  by (simp add: load_model_eq Let_def load_prefix_frame)

text \<open>
  C7. Each controller limit is drawn and stored exactly when its key is in the controller
  configuration. A key that is absent stays absent and costs no draw; a key that is present
  gets one uniform draw as its new value; every other key keeps its value. With both keys
  absent the step changes neither the state nor the generator. The step itself cannot
  raise, and whether \<open>_load_model\<close> raises does not depend on the controller configuration.
\<close>

theorem controller_limits_conditional:
  "(controller_config s ''max_translation'' = None \<longrightarrow>
      controller_config (fst (sample_controller_limits s g)) ''max_translation'' = None) \<and>
   (controller_config s ''max_translation'' \<noteq> None \<longrightarrow>
      controller_config (fst (sample_controller_limits s g)) ''max_translation'' =
        Some (CfgFloat (fst (uniform (controller_max_translation_min s)
                               (controller_max_translation_max s) g)))) \<and>
   (controller_config s ''max_rotation'' = None \<longrightarrow>
      controller_config (fst (sample_controller_limits s g)) ''max_rotation'' = None) \<and>
   (controller_config s ''max_rotation'' \<noteq> None \<longrightarrow>
      controller_config (fst (sample_controller_limits s g)) ''max_rotation'' =
        Some (CfgFloat (fst (uniform (controller_max_rotation_min s)
                               (controller_max_rotation_max s)
                               (snd (sample_max_translation s g)))))) \<and>
   (\<forall>k. k \<noteq> ''max_translation'' \<and> k \<noteq> ''max_rotation'' \<longrightarrow>
      controller_config (fst (sample_controller_limits s g)) k = controller_config s k) \<and>
   snd (sample_max_translation s g) =
     (if controller_config s ''max_translation'' = None then g else stl g) \<and>
   snd (sample_controller_limits s g) =
     (if controller_config s ''max_rotation'' = None then snd (sample_max_translation s g)
      else stl (snd (sample_max_translation s g))) \<and>
   (controller_config s ''max_translation'' = None \<and> controller_config s ''max_rotation'' = None
      \<longrightarrow> sample_controller_limits s g = (s, g)) \<and>
   (\<forall>s' g'. load_model s g = Inr (s', g') \<longrightarrow>
      controller_config s' =
        controller_config (fst (sample_controller_limits s (snd (resolve_occlusion s g))))) \<and>
   (\<forall>c. isl (load_model (s\<lparr>controller_config := c\<rparr>) g) = isl (load_model s g))"
proof (intro conjI impI allI)
  show "snd (sample_max_translation s g) =
     (if controller_config s ''max_translation'' = None then g else stl g)"
    by (rule sample_max_translation_rng)
  show "snd (sample_controller_limits s g) =
     (if controller_config s ''max_rotation'' = None then snd (sample_max_translation s g)
      else stl (snd (sample_max_translation s g)))"
    by (rule sample_controller_limits_rng)
  show "isl (load_model (s\<lparr>controller_config := c\<rparr>) g) = isl (load_model s g)" for c
    by (rule load_model_error_cfg)
  show "controller_config s' =
        controller_config (fst (sample_controller_limits s (snd (resolve_occlusion s g))))"
    if "load_model s g = Inr (s', g')" for s' g'
    using that by (rule load_model_cfg)
  show "sample_controller_limits s g = (s, g)"
    if "controller_config s ''max_translation'' = None \<and> controller_config s ''max_rotation'' = None"
    using that
    by (simp add: sample_controller_limits_def sample_max_translation_def sample_max_rotation_def)
qed (simp_all add: sample_controller_limits_cfg)

theorem controller_limits_conditional_witness:
  "controller_config wide_env ''max_translation'' \<noteq> None \<and>
   controller_config wide_env ''max_rotation'' = None \<and>
   controller_config (fst (sample_controller_limits wide_env (1/4 ## sconst (1/2))))
     ''max_translation'' = Some (CfgFloat 0.025) \<and>
   controller_config (fst (sample_controller_limits wide_env (1/4 ## sconst (1/2))))
     ''max_rotation'' = None \<and>
   controller_config (fst (sample_controller_limits wide_env (1/4 ## sconst (1/2))))
     ''type'' = Some (CfgOther ''OSC_POSE'') \<and>
   snd (sample_controller_limits wide_env (1/4 ## sconst (1/2))) = sconst (1/2) \<and>
   controller_config (default_env Map.empty) ''max_translation'' = None \<and>
   controller_config (default_env Map.empty) ''max_rotation'' = None \<and>
   sample_controller_limits (default_env Map.empty) (1/4 ## sconst (1/2)) =
     (default_env Map.empty, 1/4 ## sconst (1/2)) \<and>
   load_model wide_env (sconst (1/2)) = Inr (wide_scene, sconst (1/2)) \<and>
   controller_config wide_scene =
     controller_config
       (fst (sample_controller_limits wide_env (snd (resolve_occlusion wide_env (sconst (1/2))))))"
proof -
  let ?G = "1/4 ## sconst (1/2 :: real)"
  note W = controller_limits_conditional [of wide_env ?G]
  note D = controller_limits_conditional [of "default_env Map.empty" ?G]
  note L = controller_limits_conditional [of wide_env "sconst (1/2)"]
  have w: "controller_config wide_env ''max_translation'' \<noteq> None"
    "controller_config wide_env ''max_rotation'' = None"
    "controller_config wide_env ''type'' = Some (CfgOther ''OSC_POSE'')"
    "controller_max_translation_min wide_env = 0.02"
    "controller_max_translation_max wide_env = 0.04"
    by (simp_all add: wide_env_def init_def init_box_size_def)
  have d: "controller_config (default_env Map.empty) ''max_translation'' = None"
    "controller_config (default_env Map.empty) ''max_rotation'' = None"
    by (simp_all add: default_env_def init_def init_box_size_def)
  note W2 = W [THEN conjunct2]
  note W4 = W2 [THEN conjunct2, THEN conjunct2]
  note W5 = W4 [THEN conjunct2]
  note W6 = W5 [THEN conjunct2]
  note W7 = W6 [THEN conjunct2]
  have "controller_config (fst (sample_controller_limits wide_env ?G)) ''max_translation'' =
       Some (CfgFloat (fst (uniform (controller_max_translation_min wide_env)
                              (controller_max_translation_max wide_env) ?G)))"
    using W2 [THEN conjunct1] w(1) by (rule mp)
  then have 1: "controller_config (fst (sample_controller_limits wide_env ?G))
      ''max_translation'' = Some (CfgFloat 0.025)"
    by (simp add: w uniform_def)
  have 2: "controller_config (fst (sample_controller_limits wide_env ?G)) ''max_rotation'' = None"
    using W2 [THEN conjunct2, THEN conjunct1] w(2) by (rule mp)
  have "''type'' \<noteq> ''max_translation'' \<and> ''type'' \<noteq> ''max_rotation''" by simp
  with W5 [THEN conjunct1, THEN spec, of "''type''"]
  have "controller_config (fst (sample_controller_limits wide_env ?G)) ''type'' =
      controller_config wide_env ''type''"
    by (rule mp)
  then have 3: "controller_config (fst (sample_controller_limits wide_env ?G)) ''type'' =
      Some (CfgOther ''OSC_POSE'')"
    by (simp add: w)
  have 4: "snd (sample_controller_limits wide_env ?G) = sconst (1/2)"
    using W6 [THEN conjunct1] W7 [THEN conjunct1] w by simp
  have "controller_config (default_env Map.empty) ''max_translation'' = None \<and>
        controller_config (default_env Map.empty) ''max_rotation'' = None"
    using d by simp
  with D [THEN conjunct2, THEN conjunct2, THEN conjunct2, THEN conjunct2, THEN conjunct2,
          THEN conjunct2, THEN conjunct2, THEN conjunct1]
  have 5: "sample_controller_limits (default_env Map.empty) ?G = (default_env Map.empty, ?G)"
    by (rule mp)
  have 6: "controller_config wide_scene =
     controller_config
       (fst (sample_controller_limits wide_env (snd (resolve_occlusion wide_env (sconst (1/2))))))"
    using L [THEN conjunct2, THEN conjunct2, THEN conjunct2, THEN conjunct2, THEN conjunct2,
          THEN conjunct2, THEN conjunct2, THEN conjunct2, THEN conjunct1, THEN spec, THEN spec]
      load_wide
    by (rule mp)
  from w(1) w(2) 1 2 3 4 d 5 load_wide 6 show ?thesis
    by (intro conjI)
qed

subsection \<open>Sampled values and their ranges\<close>

text \<open>The values \<open>_load_model\<close> samples, in terms of the ranges of the loaded state.\<close>

lemma load_model_samples:
  assumes "load_model s g = Inr (s', g')"
  defines "g3 \<equiv> snd (load_prefix s g)"
  shows "table_friction_val s' =
           table_friction_min s' + (table_friction_max s' - table_friction_min s') * shd g3"
    and "table_friction s' ! 0 = table_friction_val s'"
    and "table_offset s' ! 0 =
           table_offset_x_min s' + (table_offset_x_max s' - table_offset_x_min s') * shd (stl g3)"
    and "table_offset s' ! 2 =
           table_offset_z_min s' +
           (table_offset_z_max s' - table_offset_z_min s') * shd (stl (stl g3))"
    and "object_size_x_val s' =
           object_size_x_min s' +
           (object_size_x_max s' - object_size_x_min s') * shd (stl (stl (stl g3)))"
    and "object_size_y_val s' =
           object_size_y_min s' +
           (object_size_y_max s' - object_size_y_min s') * shd (stl (stl (stl (stl g3))))"
    and "object_size_z_val s' =
           object_size_z_min s' +
           (object_size_z_max s' - object_size_z_min s') * shd (stl (stl (stl (stl (stl g3)))))"
    and "object_density_val s' =
           object_density_min s' +
           \<lfloor>shd (stl (stl (stl (stl (stl (stl g3)))))) *
            of_int (object_density_max s' + 1 - object_density_min s')\<rfloor>"
proof -
  have e: "s' = loaded (fst (load_prefix s g)) g3"
    unfolding g3_def by (rule load_model_InrD(1) [OF assms(1)])
  have ne: "table_friction s \<noteq> []" "table_offset s \<noteq> []" "2 < length (table_offset s)"
    using load_model_InrD [OF assms(1)] by auto
  show "table_friction_val s' =
           table_friction_min s' + (table_friction_max s' - table_friction_min s') * shd g3"
    by (simp add: e loaded_samples loaded_frame)
  show "table_friction s' ! 0 = table_friction_val s'"
    using ne by (simp add: e loaded_samples load_prefix_frame)
  show "table_offset s' ! 0 =
           table_offset_x_min s' + (table_offset_x_max s' - table_offset_x_min s') * shd (stl g3)"
    using ne by (simp add: e loaded_samples loaded_frame load_prefix_frame)
  show "table_offset s' ! 2 =
           table_offset_z_min s' +
           (table_offset_z_max s' - table_offset_z_min s') * shd (stl (stl g3))"
    using ne by (simp add: e loaded_samples loaded_frame load_prefix_frame)
  show "object_size_x_val s' =
           object_size_x_min s' +
           (object_size_x_max s' - object_size_x_min s') * shd (stl (stl (stl g3)))"
    by (simp add: e loaded_samples loaded_frame)
  show "object_size_y_val s' =
           object_size_y_min s' +
           (object_size_y_max s' - object_size_y_min s') * shd (stl (stl (stl (stl g3))))"
    by (simp add: e loaded_samples loaded_frame)
  show "object_size_z_val s' =
           object_size_z_min s' +
           (object_size_z_max s' - object_size_z_min s') * shd (stl (stl (stl (stl (stl g3)))))"
    by (simp add: e loaded_samples loaded_frame)
  show "object_density_val s' =
           object_density_min s' +
           \<lfloor>shd (stl (stl (stl (stl (stl (stl g3)))))) *
            of_int (object_density_max s' + 1 - object_density_min s')\<rfloor>"
    by (simp add: e loaded_samples loaded_frame)
qed

lemma load_model_ranges:
  assumes "load_model s g = Inr (s', g')"
  shows "controller_max_translation_min s' = controller_max_translation_min s"
    and "controller_max_translation_max s' = controller_max_translation_max s"
    and "controller_max_rotation_min s' = controller_max_rotation_min s"
    and "controller_max_rotation_max s' = controller_max_rotation_max s"
    and "table_friction_min s' = table_friction_min s"
    and "table_friction_max s' = table_friction_max s"
    and "table_offset_x_min s' = table_offset_x_min s"
    and "table_offset_x_max s' = table_offset_x_max s"
    and "table_offset_z_min s' = table_offset_z_min s"
    and "table_offset_z_max s' = table_offset_z_max s"
    and "object_density_min s' = object_density_min s"
    and "object_density_max s' = object_density_max s"
  using load_model_InrD(1) [OF assms] by (simp_all add: loaded_frame load_prefix_frame)

lemma load_model_translation:
  assumes "load_model s g = Inr (s', g')" and "controller_config s ''max_translation'' \<noteq> None"
  shows "controller_config s' ''max_translation'' =
           Some (CfgFloat (controller_max_translation_min s' +
             (controller_max_translation_max s' - controller_max_translation_min s') *
             shd (snd (resolve_occlusion s g))))"
  using assms(2)
  by (simp add: load_model_cfg [OF assms(1)] load_model_ranges [OF assms(1)]
        sample_controller_limits_cfg uniform_def)

lemma load_model_rotation:
  assumes "load_model s g = Inr (s', g')" and "controller_config s ''max_rotation'' \<noteq> None"
  shows "controller_config s' ''max_rotation'' =
           Some (CfgFloat (controller_max_rotation_min s' +
             (controller_max_rotation_max s' - controller_max_rotation_min s') *
             shd (snd (sample_max_translation s (snd (resolve_occlusion s g))))))"
  using assms(2)
  by (simp add: load_model_cfg [OF assms(1)] load_model_ranges [OF assms(1)]
        sample_controller_limits_cfg uniform_def)

lemma unit_draws_steps:
  assumes "unit_draws g"
  shows "unit_draws (snd (resolve_occlusion s g))"
    and "unit_draws (snd (sample_max_translation s (snd (resolve_occlusion s g))))"
proof -
  show a: "unit_draws (snd (resolve_occlusion s g))"
    using assms by (simp add: resolve_occlusion_rng unit_draws_stl)
  show "unit_draws (snd (sample_max_translation s (snd (resolve_occlusion s g))))"
    using a by (simp add: sample_max_translation_rng unit_draws_stl)
qed

lemma uniform_in_range:
  assumes "unit_draws h" and "a \<le> b"
  shows "a \<le> a + (b - a) * shd h \<and> a + (b - a) * shd h \<le> b"
  using uniform_range [of a b "shd h"] unit_draws_shd [OF assms(1)] assms(2) by simp

lemma randint_in_range:
  assumes "unit_draws h" and "a \<le> b"
  shows "a \<le> a + \<lfloor>shd h * of_int (b + 1 - a)\<rfloor> \<and> a + \<lfloor>shd h * of_int (b + 1 - a)\<rfloor> \<le> b"
  using randint_range [of a b "shd h"] unit_draws_shd [OF assms(1)] assms(2) by simp

lemma load_robots_eq:
  "load_robots s g =
     Inr (s\<lparr>gripper_friction_val :=
              gripper_friction_min s + (gripper_friction_max s - gripper_friction_min s) * shd g,
            robot_gripper_friction :=
              [gripper_friction_min s + (gripper_friction_max s - gripper_friction_min s) * shd g,
               0.015, 0.0003]\<rparr>, stl g)"
  by (simp add: load_robots_def uniform_def set_item_def bind_err_def Let_def)

text \<open>
  C6. For unit draws, every quantity whose range is ordered (\<open>min \<le> max\<close>) is sampled
  inside that range: table friction (value and first array component), table offset x and
  z, object size x, y and z, density, the controller limits that are declared, and the
  gripper friction. The ranges are those of the loaded state, which for the object size
  are the ones the occlusion profile installs.
\<close>

theorem samples_within_range:
  assumes "unit_draws g"
  shows "(\<forall>s' g'. load_model s g = Inr (s', g') \<longrightarrow>
           (table_friction_min s' \<le> table_friction_max s' \<longrightarrow>
              table_friction_min s' \<le> table_friction_val s' \<and>
              table_friction_val s' \<le> table_friction_max s' \<and>
              table_friction s' ! 0 = table_friction_val s') \<and>
           (table_offset_x_min s' \<le> table_offset_x_max s' \<longrightarrow>
              table_offset_x_min s' \<le> table_offset s' ! 0 \<and>
              table_offset s' ! 0 \<le> table_offset_x_max s') \<and>
           (table_offset_z_min s' \<le> table_offset_z_max s' \<longrightarrow>
              table_offset_z_min s' \<le> table_offset s' ! 2 \<and>
              table_offset s' ! 2 \<le> table_offset_z_max s') \<and>
           (object_size_x_min s' \<le> object_size_x_max s' \<longrightarrow>
              object_size_x_min s' \<le> object_size_x_val s' \<and>
              object_size_x_val s' \<le> object_size_x_max s') \<and>
           (object_size_y_min s' \<le> object_size_y_max s' \<longrightarrow>
              object_size_y_min s' \<le> object_size_y_val s' \<and>
              object_size_y_val s' \<le> object_size_y_max s') \<and>
           (object_size_z_min s' \<le> object_size_z_max s' \<longrightarrow>
              object_size_z_min s' \<le> object_size_z_val s' \<and>
              object_size_z_val s' \<le> object_size_z_max s') \<and>
           (object_density_min s' \<le> object_density_max s' \<longrightarrow>
              object_density_min s' \<le> object_density_val s' \<and>
              object_density_val s' \<le> object_density_max s') \<and>
           (controller_config s ''max_translation'' \<noteq> None \<and>
            controller_max_translation_min s' \<le> controller_max_translation_max s' \<longrightarrow>
              (\<exists>v. controller_config s' ''max_translation'' = Some (CfgFloat v) \<and>
                   controller_max_translation_min s' \<le> v \<and>
                   v \<le> controller_max_translation_max s')) \<and>
           (controller_config s ''max_rotation'' \<noteq> None \<and>
            controller_max_rotation_min s' \<le> controller_max_rotation_max s' \<longrightarrow>
              (\<exists>v. controller_config s' ''max_rotation'' = Some (CfgFloat v) \<and>
                   controller_max_rotation_min s' \<le> v \<and>
                   v \<le> controller_max_rotation_max s'))) \<and>
         (\<forall>r h. load_robots s g = Inr (r, h) \<longrightarrow>
            gripper_friction_min r \<le> gripper_friction_max r \<longrightarrow>
              gripper_friction_min r \<le> gripper_friction_val r \<and>
              gripper_friction_val r \<le> gripper_friction_max r \<and>
              robot_gripper_friction r ! 0 = gripper_friction_val r)"
proof (intro conjI allI impI)
  fix r h
  assume "load_robots s g = Inr (r, h)" and le: "gripper_friction_min r \<le> gripper_friction_max r"
  then have r: "r = s\<lparr>gripper_friction_val :=
              gripper_friction_min s + (gripper_friction_max s - gripper_friction_min s) * shd g,
            robot_gripper_friction :=
              [gripper_friction_min s + (gripper_friction_max s - gripper_friction_min s) * shd g,
               0.015, 0.0003]\<rparr>"
    by (simp add: load_robots_eq)
  have le': "gripper_friction_min s \<le> gripper_friction_max s"
    using le by (simp add: r)
  show "gripper_friction_min r \<le> gripper_friction_val r"
    and "gripper_friction_val r \<le> gripper_friction_max r"
    and "robot_gripper_friction r ! 0 = gripper_friction_val r"
    using uniform_in_range [OF assms le'] by (simp_all add: r)
next
  fix s' g'
  assume L: "load_model s g = Inr (s', g')"
  note S = load_model_samples [OF L]
  let ?g3 = "snd (load_prefix s g)"
  have u0: "unit_draws ?g3" by (rule unit_draws_prefix [OF assms])
  have u1: "unit_draws (stl ?g3)" by (rule unit_draws_stl [OF u0])
  have u2: "unit_draws (stl (stl ?g3))" by (rule unit_draws_stl [OF u1])
  have u3: "unit_draws (stl (stl (stl ?g3)))" by (rule unit_draws_stl [OF u2])
  have u4: "unit_draws (stl (stl (stl (stl ?g3))))" by (rule unit_draws_stl [OF u3])
  have u5: "unit_draws (stl (stl (stl (stl (stl ?g3)))))" by (rule unit_draws_stl [OF u4])
  have u6: "unit_draws (stl (stl (stl (stl (stl (stl ?g3))))))" by (rule unit_draws_stl [OF u5])
  {
    assume le: "table_friction_min s' \<le> table_friction_max s'"
    show "table_friction_min s' \<le> table_friction_val s'"
      and "table_friction_val s' \<le> table_friction_max s'"
      using uniform_in_range [OF u0 le] by (simp_all add: S(1))
    show "table_friction s' ! 0 = table_friction_val s'" by (rule S(2))
  }
  {
    assume le: "table_offset_x_min s' \<le> table_offset_x_max s'"
    show "table_offset_x_min s' \<le> table_offset s' ! 0"
      and "table_offset s' ! 0 \<le> table_offset_x_max s'"
      using uniform_in_range [OF u1 le] by (simp_all add: S(3))
  }
  {
    assume le: "table_offset_z_min s' \<le> table_offset_z_max s'"
    show "table_offset_z_min s' \<le> table_offset s' ! 2"
      and "table_offset s' ! 2 \<le> table_offset_z_max s'"
      using uniform_in_range [OF u2 le] by (simp_all add: S(4))
  }
  {
    assume le: "object_size_x_min s' \<le> object_size_x_max s'"
    show "object_size_x_min s' \<le> object_size_x_val s'"
      and "object_size_x_val s' \<le> object_size_x_max s'"
      using uniform_in_range [OF u3 le] by (simp_all add: S(5))
  }
  {
    assume le: "object_size_y_min s' \<le> object_size_y_max s'"
    show "object_size_y_min s' \<le> object_size_y_val s'"
      and "object_size_y_val s' \<le> object_size_y_max s'"
      using uniform_in_range [OF u4 le] by (simp_all add: S(6))
  }
  {
    assume le: "object_size_z_min s' \<le> object_size_z_max s'"
    show "object_size_z_min s' \<le> object_size_z_val s'"
      and "object_size_z_val s' \<le> object_size_z_max s'"
      using uniform_in_range [OF u5 le] by (simp_all add: S(7))
  }
  {
    assume le: "object_density_min s' \<le> object_density_max s'"
    show "object_density_min s' \<le> object_density_val s'"
      and "object_density_val s' \<le> object_density_max s'"
      using randint_in_range [OF u6 le] by (simp_all add: S(8))
  }
  {
    assume h: "controller_config s ''max_translation'' \<noteq> None \<and>
            controller_max_translation_min s' \<le> controller_max_translation_max s'"
    then have p: "controller_config s ''max_translation'' \<noteq> None"
      and le: "controller_max_translation_min s' \<le> controller_max_translation_max s'"
      by simp_all
    show "\<exists>v. controller_config s' ''max_translation'' = Some (CfgFloat v) \<and>
                   controller_max_translation_min s' \<le> v \<and>
                   v \<le> controller_max_translation_max s'"
      using load_model_translation [OF L p]
        uniform_in_range [OF unit_draws_steps(1) [OF assms] le]
      by blast
  }
  {
    assume h: "controller_config s ''max_rotation'' \<noteq> None \<and>
            controller_max_rotation_min s' \<le> controller_max_rotation_max s'"
    then have p: "controller_config s ''max_rotation'' \<noteq> None"
      and le: "controller_max_rotation_min s' \<le> controller_max_rotation_max s'"
      by simp_all
    show "\<exists>v. controller_config s' ''max_rotation'' = Some (CfgFloat v) \<and>
                   controller_max_rotation_min s' \<le> v \<and>
                   v \<le> controller_max_rotation_max s'"
      using load_model_rotation [OF L p]
        uniform_in_range [OF unit_draws_steps(2) [OF assms] le]
      by blast
  }
qed

theorem samples_within_range_witness:
  "unit_draws (sconst (1/2)) \<and>
   load_model wide_env (sconst (1/2)) = Inr (wide_scene, sconst (1/2)) \<and>
   table_friction_min wide_scene \<le> table_friction_max wide_scene \<and>
   table_friction_min wide_scene \<le> table_friction_val wide_scene \<and>
   table_friction_val wide_scene \<le> table_friction_max wide_scene \<and>
   table_friction wide_scene ! 0 = table_friction_val wide_scene \<and>
   table_friction_min wide_scene = 0.2 \<and> table_friction_max wide_scene = 0.4"
proof -
  have r: "table_friction_min wide_scene = 0.2" "table_friction_max wide_scene = 0.4"
    by (simp_all add: wide_scene_def wide_env_def init_def init_box_size_def)
  then have le: "table_friction_min wide_scene \<le> table_friction_max wide_scene"
    by simp
  note A = samples_within_range [OF unit_draws_sconst, of wide_env, THEN conjunct1,
      THEN spec, THEN spec, THEN mp, OF load_wide]
  have "table_friction_min wide_scene \<le> table_friction_val wide_scene \<and>
        table_friction_val wide_scene \<le> table_friction_max wide_scene \<and>
        table_friction wide_scene ! 0 = table_friction_val wide_scene"
    using A [THEN conjunct1] le by (rule mp)
  with unit_draws_sconst load_wide le r show ?thesis
    by (intro conjI) simp_all
qed

text \<open>
  C5. A quantity whose range is degenerate (\<open>min = max\<close>) is sampled at exactly that value,
  whatever the draws: table friction, table offset x and z, object size, the declared
  controller limits and the gripper friction; the density too, for a unit draw. Loading
  does not raise because of a degenerate range: with the table arrays in shape and
  \<open>object_density_min = object_density_max\<close> it returns a state.
\<close>

theorem degenerate_range_sampling:
  assumes "unit_draws g"
  shows "(\<forall>s' g'. load_model s g = Inr (s', g') \<longrightarrow>
           (table_friction_min s' = table_friction_max s' \<longrightarrow>
              table_friction_val s' = table_friction_min s' \<and>
              table_friction s' ! 0 = table_friction_min s') \<and>
           (table_offset_x_min s' = table_offset_x_max s' \<longrightarrow>
              table_offset s' ! 0 = table_offset_x_min s') \<and>
           (table_offset_z_min s' = table_offset_z_max s' \<longrightarrow>
              table_offset s' ! 2 = table_offset_z_min s') \<and>
           (object_size_x_min s' = object_size_x_max s' \<longrightarrow>
              object_size_x_val s' = object_size_x_min s') \<and>
           (object_size_y_min s' = object_size_y_max s' \<longrightarrow>
              object_size_y_val s' = object_size_y_min s') \<and>
           (object_size_z_min s' = object_size_z_max s' \<longrightarrow>
              object_size_z_val s' = object_size_z_min s') \<and>
           (object_density_min s' = object_density_max s' \<longrightarrow>
              object_density_val s' = object_density_min s') \<and>
           (controller_config s ''max_translation'' \<noteq> None \<and>
            controller_max_translation_min s' = controller_max_translation_max s' \<longrightarrow>
              controller_config s' ''max_translation'' =
                Some (CfgFloat (controller_max_translation_min s'))) \<and>
           (controller_config s ''max_rotation'' \<noteq> None \<and>
            controller_max_rotation_min s' = controller_max_rotation_max s' \<longrightarrow>
              controller_config s' ''max_rotation'' =
                Some (CfgFloat (controller_max_rotation_min s')))) \<and>
         (gripper_friction_min s = gripper_friction_max s \<longrightarrow>
            load_robots s g =
              Inr (s\<lparr>gripper_friction_val := gripper_friction_min s,
                     robot_gripper_friction := [gripper_friction_min s, 0.015, 0.0003]\<rparr>,
                   stl g)) \<and>
         (table_friction s \<noteq> [] \<and> 3 \<le> length (table_offset s) \<and> table_full_size s \<noteq> [] \<and>
          object_density_min s = object_density_max s \<longrightarrow>
            (\<exists>s' g'. load_model s g = Inr (s', g')))"
proof (intro conjI allI impI)
  assume "gripper_friction_min s = gripper_friction_max s"
  then show "load_robots s g =
              Inr (s\<lparr>gripper_friction_val := gripper_friction_min s,
                     robot_gripper_friction := [gripper_friction_min s, 0.015, 0.0003]\<rparr>,
                   stl g)"
    by (simp add: load_robots_eq)
next
  assume "table_friction s \<noteq> [] \<and> 3 \<le> length (table_offset s) \<and> table_full_size s \<noteq> [] \<and>
          object_density_min s = object_density_max s"
  then show "\<exists>s' g'. load_model s g = Inr (s', g')"
    using load_model_returns [of s g] by simp
next
  fix s' g'
  assume L: "load_model s g = Inr (s', g')"
  note S = load_model_samples [OF L]
  let ?g3 = "snd (load_prefix s g)"
  have u6: "unit_draws (stl (stl (stl (stl (stl (stl ?g3))))))"
    by (intro unit_draws_stl unit_draws_prefix assms)
  {
    assume e: "table_friction_min s' = table_friction_max s'"
    show v: "table_friction_val s' = table_friction_min s'"
      using S(1) by (simp add: e)
    show "table_friction s' ! 0 = table_friction_min s'"
      using S(2) v by simp
  }
  {
    assume e: "table_offset_x_min s' = table_offset_x_max s'"
    show "table_offset s' ! 0 = table_offset_x_min s'"
      using S(3) by (simp add: e)
  }
  {
    assume e: "table_offset_z_min s' = table_offset_z_max s'"
    show "table_offset s' ! 2 = table_offset_z_min s'"
      using S(4) by (simp add: e)
  }
  {
    assume e: "object_size_x_min s' = object_size_x_max s'"
    show "object_size_x_val s' = object_size_x_min s'"
      using S(5) by (simp add: e)
  }
  {
    assume e: "object_size_y_min s' = object_size_y_max s'"
    show "object_size_y_val s' = object_size_y_min s'"
      using S(6) by (simp add: e)
  }
  {
    assume e: "object_size_z_min s' = object_size_z_max s'"
    show "object_size_z_val s' = object_size_z_min s'"
      using S(7) by (simp add: e)
  }
  {
    assume e: "object_density_min s' = object_density_max s'"
    have "\<lfloor>shd (stl (stl (stl (stl (stl (stl ?g3))))))\<rfloor> = 0"
      using unit_draws_shd [OF u6] by (intro floor_unique) simp_all
    then show "object_density_val s' = object_density_min s'"
      using S(8) e by simp
  }
  {
    assume h: "controller_config s ''max_translation'' \<noteq> None \<and>
            controller_max_translation_min s' = controller_max_translation_max s'"
    then have p: "controller_config s ''max_translation'' \<noteq> None"
      and e: "controller_max_translation_min s' = controller_max_translation_max s'"
      by simp_all
    show "controller_config s' ''max_translation'' =
                Some (CfgFloat (controller_max_translation_min s'))"
      using load_model_translation [OF L p] by (simp add: e)
  }
  {
    assume h: "controller_config s ''max_rotation'' \<noteq> None \<and>
            controller_max_rotation_min s' = controller_max_rotation_max s'"
    then have p: "controller_config s ''max_rotation'' \<noteq> None"
      and e: "controller_max_rotation_min s' = controller_max_rotation_max s'"
      by simp_all
    show "controller_config s' ''max_rotation'' =
                Some (CfgFloat (controller_max_rotation_min s'))"
      using load_model_rotation [OF L p] by (simp add: e)
  }
qed

theorem degenerate_range_sampling_witness:
  "unit_draws (sconst (1/2)) \<and>
   load_model (default_env Map.empty) (sconst (1/2)) = Inr (ground_scene, sconst (1/2)) \<and>
   table_friction_min ground_scene = table_friction_max ground_scene \<and>
   table_friction_val ground_scene = table_friction_min ground_scene \<and>
   table_friction ground_scene ! 0 = table_friction_min ground_scene \<and>
   object_density_min ground_scene = object_density_max ground_scene \<and>
   object_density_val ground_scene = object_density_min ground_scene \<and>
   object_density_min ground_scene = 86 \<and> table_friction_min ground_scene = 0.3"
proof -
  have r: "table_friction_min ground_scene = 0.3" "table_friction_max ground_scene = 0.3"
    "object_density_min ground_scene = 86" "object_density_max ground_scene = 86"
    by (simp_all add: ground_scene_def default_env_def init_def init_box_size_def)
  then have e: "table_friction_min ground_scene = table_friction_max ground_scene"
    "object_density_min ground_scene = object_density_max ground_scene"
    by simp_all
  note A = degenerate_range_sampling [OF unit_draws_sconst, of "default_env Map.empty",
      THEN conjunct1, THEN spec, THEN spec, THEN mp, OF load_ground]
  have 1: "table_friction_val ground_scene = table_friction_min ground_scene \<and>
        table_friction ground_scene ! 0 = table_friction_min ground_scene"
    using A [THEN conjunct1] e(1) by (rule mp)
  have 2: "object_density_val ground_scene = object_density_min ground_scene"
    using A [THEN conjunct2, THEN conjunct2, THEN conjunct2, THEN conjunct2, THEN conjunct2,
        THEN conjunct2, THEN conjunct1] e(2)
    by (rule mp)
  from unit_draws_sconst load_ground e 1 2 r show ?thesis
    by (intro conjI) simp_all
qed

subsection \<open>Inverted ranges\<close>

lemma load_inverted:
  "load_model inverted_env (sconst (1/2)) =
     Inr (wide_scene\<lparr>table_friction_min := 0.4, table_friction_max := 0.2\<rparr>, sconst (1/2))"
  by (simp add: load_model_def resolve_occlusion_def init_box_size_def
        sample_controller_limits_def sample_max_translation_def sample_max_rotation_def
        sample_table_def sample_object_def build_placement_def uniform_def randint_def
        set_item_def get_item_def bind_err_def box_size_def obj_texture_def
        inverted_env_def wide_env_def wide_scene_def wide_cube_def init_def Let_def)

lemma uniform_inverted:
  fixes a b u :: real
  assumes "b < a" and "0 \<le> u" and "u < 1"
  shows "b < a + (b - a) * u" and "a + (b - a) * u \<le> a"
proof -
  have "(a - b) * u < (a - b) * 1"
    using assms by (intro mult_strict_left_mono) simp_all
  then show "b < a + (b - a) * u" by (simp add: algebra_simps)
  have "0 \<le> (a - b) * u" using assms by simp
  then show "a + (b - a) * u \<le> a" by (simp add: algebra_simps)
qed

text \<open>
  C2 (as amended). No range is validated. The constructor is total and compares no minimum
  with a maximum; \<open>_load_robots\<close> never raises; \<open>_load_model\<close> raises only \<open>IndexError\<close>,
  for a table array that is too short, and \<open>ValueError\<close>, and the latter exactly when the
  density range is inverted and the table step before it has run through. An inverted range
  of a continuous quantity raises nothing: for a unit draw \<open>u\<close> its sample
  \<open>min + (max - min) * u\<close> lies in \<open>(max, min]\<close>.
\<close>

theorem no_range_validation:
  "(load_model s g = Inl ValueError) =
     (table_friction s \<noteq> [] \<and> 3 \<le> length (table_offset s) \<and>
      object_density_max s < object_density_min s) \<and>
   (load_model s g = Inl IndexError) =
     (table_friction s = [] \<or> length (table_offset s) < 3 \<or>
      (object_density_min s \<le> object_density_max s \<and> table_full_size s = [])) \<and>
   load_model s g \<noteq> Inl AttributeError \<and>
   \<not> isl (load_robots s g) \<and>
   (high < low \<and> 0 \<le> shd g \<and> shd g < 1 \<longrightarrow>
      high < fst (uniform low high g) \<and> fst (uniform low high g) \<le> low)"
proof (intro conjI impI)
  show "(load_model s g = Inl ValueError) =
     (table_friction s \<noteq> [] \<and> 3 \<le> length (table_offset s) \<and>
      object_density_max s < object_density_min s)"
    by (auto simp: load_model_eq Let_def load_prefix_frame)
  show "(load_model s g = Inl IndexError) =
     (table_friction s = [] \<or> length (table_offset s) < 3 \<or>
      (object_density_min s \<le> object_density_max s \<and> table_full_size s = []))"
    by (auto simp: load_model_eq Let_def load_prefix_frame)
  show "load_model s g \<noteq> Inl AttributeError"
    by (simp add: load_model_eq Let_def load_prefix_frame)
  show "\<not> isl (load_robots s g)"
    by (simp add: load_robots_eq)
next
  assume h: "high < low \<and> 0 \<le> shd g \<and> shd g < 1"
  then show "high < fst (uniform low high g)"
    using uniform_inverted(1) [of high low "shd g"] by (simp add: uniform_def)
  from h show "fst (uniform low high g) \<le> low"
    using uniform_inverted(2) [of high low "shd g"] by (simp add: uniform_def)
qed

theorem no_range_validation_witness:
  "table_friction_max inverted_env < table_friction_min inverted_env \<and>
   0 \<le> shd (sconst (1/2 :: real)) \<and> shd (sconst (1/2 :: real)) < 1 \<and>
   table_friction_max inverted_env <
     fst (uniform (table_friction_min inverted_env) (table_friction_max inverted_env)
            (sconst (1/2))) \<and>
   fst (uniform (table_friction_min inverted_env) (table_friction_max inverted_env)
          (sconst (1/2))) \<le> table_friction_min inverted_env"
proof -
  have a: "table_friction_max inverted_env < table_friction_min inverted_env \<and>
     0 \<le> shd (sconst (1/2 :: real)) \<and> shd (sconst (1/2 :: real)) < 1"
    by (simp add: inverted_env_def)
  note T = no_range_validation [of inverted_env "sconst (1/2)"
      "table_friction_max inverted_env" "table_friction_min inverted_env"]
  have "table_friction_max inverted_env <
     fst (uniform (table_friction_min inverted_env) (table_friction_max inverted_env)
            (sconst (1/2))) \<and>
   fst (uniform (table_friction_min inverted_env) (table_friction_max inverted_env)
          (sconst (1/2))) \<le> table_friction_min inverted_env"
    using T [THEN conjunct2, THEN conjunct2, THEN conjunct2, THEN conjunct2] a by (rule mp)
  with a show ?thesis by simp
qed

text \<open>
  C2 as stated fails: with the table friction range inverted (\<open>0.4 > 0.2\<close>) loading raises
  nothing and samples the friction \<open>0.3\<close>.
\<close>

theorem no_range_validation_counterexample:
  "table_friction_max inverted_env < table_friction_min inverted_env \<and>
   load_model inverted_env (sconst (1/2)) =
     Inr (wide_scene\<lparr>table_friction_min := 0.4, table_friction_max := 0.2\<rparr>, sconst (1/2)) \<and>
   table_friction_val (wide_scene\<lparr>table_friction_min := 0.4, table_friction_max := 0.2\<rparr>) = 0.3"
proof -
  have "table_friction_max inverted_env < table_friction_min inverted_env"
    by (simp add: inverted_env_def)
  moreover have
    "table_friction_val (wide_scene\<lparr>table_friction_min := 0.4, table_friction_max := 0.2\<rparr>) = 0.3"
    by (simp add: wide_scene_def)
  ultimately show ?thesis using load_inverted by (intro conjI)
qed

end
